theory Spec2Isabelle
  imports Main
begin

section \<open>JavaScript values and exceptions\<close>

text \<open>
  Request bodies, tool arguments and tool results are JSON data.  They are modelled by
  one datatype of JavaScript values.  Numbers are integers here (no claim depends on
  fractions or NaN).  An object is an association list; the objects built by the relay
  have distinct keys, and for an object read from a request the first binding of a key
  is the one looked up.
\<close>

datatype jsval =
    JUndefined
  | JNull
  | JBool bool
  | JNum int
  | JStr string
  | JArr "jsval list"
  | JObj "(string \<times> jsval) list"

text \<open>
  A thrown value is an \<^verbatim>\<open>Error\<close> object; the relay only ever reads its
  \<^verbatim>\<open>message\<close>.
\<close>

datatype js_error = JsError (message: string)

text \<open>JavaScript truthiness, as used by \<^verbatim>\<open>!x\<close>, \<^verbatim>\<open>x ? a : b\<close> and \<^verbatim>\<open>x && y\<close>.\<close>

fun truthy :: "jsval \<Rightarrow> bool" where
  "truthy JUndefined = False"
| "truthy JNull = False"
| "truthy (JBool b) = b"
| "truthy (JNum n) = (n \<noteq> 0)"
| "truthy (JStr s) = (s \<noteq> [])"
| "truthy (JArr xs) = True"
| "truthy (JObj kvs) = True"

text \<open>\<^verbatim>\<open>Array.isArray(x)\<close>.\<close>

fun isArray :: "jsval \<Rightarrow> bool" where
  "isArray (JArr xs) = True"
| "isArray v = False"

text \<open>
  Property access \<^verbatim>\<open>v.k\<close> (also the destructuring \<^verbatim>\<open>const { k } = v\<close>): a
  TypeError on \<^verbatim>\<open>undefined\<close> and \<^verbatim>\<open>null\<close>, the bound value on an object that has
  the key, \<^verbatim>\<open>undefined\<close> otherwise.  The relay reads only the keys
  \<^verbatim>\<open>messages\<close>, \<^verbatim>\<open>toolResults\<close>, \<^verbatim>\<open>assistantResponse\<close>, \<^verbatim>\<open>role\<close>,
  \<^verbatim>\<open>content\<close>, \<^verbatim>\<open>error\<close>, \<^verbatim>\<open>result\<close>, \<^verbatim>\<open>tool_call_id\<close> and
  \<^verbatim>\<open>tool_use_id\<close> this way, none of which a string, number, boolean or array
  inherits from its prototype.
\<close>

fun get_prop :: "jsval \<Rightarrow> string \<Rightarrow> js_error + jsval" where
  "get_prop JUndefined k =
     Inl (JsError (''Cannot read properties of undefined (reading '' @ [CHR 0x27] @ k @
                   [CHR 0x27] @ '')''))"
| "get_prop JNull k =
     Inl (JsError (''Cannot read properties of null (reading '' @ [CHR 0x27] @ k @
                   [CHR 0x27] @ '')''))"
| "get_prop (JObj kvs) k = Inr (case map_of kvs k of None \<Rightarrow> JUndefined | Some v \<Rightarrow> v)"
| "get_prop v k = Inr JUndefined"

text \<open>\<^verbatim>\<open>undefined\<close> and \<^verbatim>\<open>null\<close>, the two values a property access throws on.\<close>

fun nullish :: "jsval \<Rightarrow> bool" where
  "nullish JUndefined = True"
| "nullish JNull = True"
| "nullish v = False"

text \<open>
  The text JavaScript makes of a value where one is needed, as in a template literal.  A
  primitive always has one.  An array is joined with commas, \<^verbatim>\<open>undefined\<close> and
  \<^verbatim>\<open>null\<close> elements giving the empty text.  An object read from JSON is
  \<^verbatim>\<open>[object Object]\<close>, unless it has a \<^verbatim>\<open>toString\<close> key of its own: that value
  is not callable, \<^verbatim>\<open>valueOf\<close> yields no primitive either, and the conversion
  throws a TypeError.  The text of a number is left to a parameter.
\<close>

fun join_texts :: "(js_error + string) list \<Rightarrow> js_error + string" where
  "join_texts [] = Inr []"
| "join_texts [r] = r"
| "join_texts (r # rs) =
     (case r of
        Inl e \<Rightarrow> Inl e
      | Inr t \<Rightarrow> (case join_texts rs of Inl e \<Rightarrow> Inl e | Inr u \<Rightarrow> Inr (t @ '','' @ u)))"

primrec js_String :: "(int \<Rightarrow> string) \<Rightarrow> jsval \<Rightarrow> js_error + string" where
  "js_String num JUndefined = Inr ''undefined''"
| "js_String num JNull = Inr ''null''"
| "js_String num (JBool b) = Inr (if b then ''true'' else ''false'')"
| "js_String num (JNum n) = Inr (num n)"
| "js_String num (JStr t) = Inr t"
| "js_String num (JArr xs) =
     join_texts (map (\<lambda>(x, r). if nullish x then Inr [] else r) (zip xs (map (js_String num) xs)))"
| "js_String num (JObj kvs) =
     (if map_of kvs ''toString'' = None then Inr ''[object Object]''
      else Inl (JsError ''Cannot convert object to primitive value''))"

section \<open>The Tool Endpoint Client (mcpClient.js)\<close>

text \<open>A tool descriptor as the MCP SDK's \<^verbatim>\<open>listTools\<close> returns it.\<close>

record tool =
  name :: string
  description :: jsval
  inputSchema :: jsval

text \<open>
  Every call that leaves the process is logged in a trace, so that "is contacted",
  "how often" and "in which order" can be stated.  The trace is not a field of the
  source; it records \<^verbatim>\<open>client.connect\<close>, \<^verbatim>\<open>client.listTools\<close>,
  \<^verbatim>\<open>client.callTool\<close> and the provider's \<^verbatim>\<open>create\<close> with its
  \<^verbatim>\<open>messages\<close> and \<^verbatim>\<open>tools\<close>.
\<close>

datatype event =
    Connect
  | ListTools
  | RemoteCallTool string jsval
  | ModelCreate "jsval list" "jsval list"

text \<open>
  The singleton \<^verbatim>\<open>MCPClientManager\<close>: \<^verbatim>\<open>client\<close> tells whether
  \<^verbatim>\<open>this.client\<close> is non-null.
\<close>

record state =
  client :: bool
  isConnected :: bool
  tools :: "tool list"
  trace :: "event list"

text \<open>
  The remote services and the JavaScript built-ins the relay calls.  What a remote call
  answers may depend on everything that happened before, so each takes the trace so far.
  \<^verbatim>\<open>JSON.parse\<close>, \<^verbatim>\<open>JSON.stringify\<close> and the conversion of a number to
  text are pure functions of their argument.
\<close>

record anthropic_block =
  block_type :: string
  block_id :: string
  block_name :: string
  block_input :: jsval

record anthropic_message =
  stop_reason :: string
  content :: "anthropic_block list"

record tool_call =
  call_id :: string
  function_name :: string
  function_arguments :: string

record openai_message =
  openai_content :: jsval
  tool_calls :: "tool_call list option"

record world =
  sdk_connect :: "event list \<Rightarrow> js_error option"
  sdk_listTools :: "event list \<Rightarrow> js_error + tool list"
  sdk_callTool :: "event list \<Rightarrow> string \<Rightarrow> jsval \<Rightarrow> js_error + jsval"
  anthropic_create :: "event list \<Rightarrow> jsval list \<Rightarrow> jsval list \<Rightarrow> js_error + anthropic_message"
  openai_create :: "event list \<Rightarrow> jsval list \<Rightarrow> jsval list \<Rightarrow> js_error + openai_message list"
  JSON_parse :: "string \<Rightarrow> js_error + jsval"
  JSON_stringify :: "jsval \<Rightarrow> jsval"
  Number_toString :: "int \<Rightarrow> string"

text \<open>The constructor.\<close>

definition new_MCPClientManager :: state where
  "new_MCPClientManager = \<lparr>client = False, isConnected = False, tools = [], trace = []\<rparr>"

text \<open>
  \<^verbatim>\<open>initialize()\<close> suspends twice, at \<^verbatim>\<open>await this.client.connect(transport)\<close>
  and at \<^verbatim>\<open>await this.client.listTools()\<close>, and other requests run in between.  It
  is therefore two steps.  The first creates the client and connects; when the connect
  succeeds it sets \<^verbatim>\<open>isConnected\<close> and the call is left waiting for the tool list
  (the result \<^verbatim>\<open>True\<close>, with the state every other request sees meanwhile); when it
  throws, the \<^verbatim>\<open>catch\<close> resets \<^verbatim>\<open>isConnected\<close> and the call has returned
  \<^verbatim>\<open>false\<close>.  A failing \<^verbatim>\<open>sdk_connect\<close> stands for any exception up to and
  including \<^verbatim>\<open>client.connect\<close> (an unusable URL among them).
\<close>

definition initialize_connect :: "world \<Rightarrow> state \<Rightarrow> bool \<times> state" where
  "initialize_connect w s =
     (let s1 = s\<lparr>client := True\<rparr>;
          connected = sdk_connect w (trace s1);
          s2 = s1\<lparr>trace := trace s1 @ [Connect]\<rparr>
      in case connected of
           Some e \<Rightarrow> (False, s2\<lparr>isConnected := False\<rparr>)
         | None \<Rightarrow> (True, s2\<lparr>isConnected := True\<rparr>))"

text \<open>
  The second step resumes the call in the state it finds when \<^verbatim>\<open>listTools\<close>
  answers: it stores the tool list and returns \<^verbatim>\<open>true\<close>, or the \<^verbatim>\<open>catch\<close> resets
  \<^verbatim>\<open>isConnected\<close> and the call returns \<^verbatim>\<open>false\<close>.  The SDK validates the answer
  of \<^verbatim>\<open>listTools\<close>, so the logging that follows the assignment does not throw.
\<close>

definition initialize_listTools :: "world \<Rightarrow> state \<Rightarrow> bool \<times> state" where
  "initialize_listTools w s =
     (let toolsList = sdk_listTools w (trace s);
          s4 = s\<lparr>trace := trace s @ [ListTools]\<rparr>
      in case toolsList of
           Inl e \<Rightarrow> (False, s4\<lparr>isConnected := False\<rparr>)
         | Inr ts \<Rightarrow> (True, s4\<lparr>tools := ts\<rparr>))"

text \<open>
  A call that nothing interrupts, as a handler that awaits it sees it: its result and the
  state when it has returned.
\<close>

definition initialize :: "world \<Rightarrow> state \<Rightarrow> bool \<times> state" where
  "initialize w s =
     (case initialize_connect w s of
        (False, s') \<Rightarrow> (False, s')
      | (True, s3) \<Rightarrow> initialize_listTools w s3)"

text \<open>
  \<^verbatim>\<open>callTool(toolName, args)\<close>: throws when not connected, otherwise forwards to
  the SDK; the inner \<^verbatim>\<open>catch\<close> logs and rethrows the same error.
\<close>

definition callTool :: "world \<Rightarrow> state \<Rightarrow> string \<Rightarrow> jsval \<Rightarrow> (js_error + jsval) \<times> state" where
  "callTool w s toolName args =
     (if \<not> isConnected s then (Inl (JsError ''MCP client not connected''), s)
      else (sdk_callTool w (trace s) toolName args,
            s\<lparr>trace := trace s @ [RemoteCallTool toolName args]\<rparr>))"

definition getTools :: "state \<Rightarrow> tool list" where
  "getTools s = tools s"

definition isReady :: "state \<Rightarrow> bool" where
  "isReady s = isConnected s"



section \<open>The Conversation Relay (server.js)\<close>

text \<open>
  What a handler sends: the status (200 unless \<^verbatim>\<open>res.status\<close> set another) and the
  fields of the object given to \<^verbatim>\<open>res.json\<close>, in the order written.  A field holds
  the provider's response as received, or JSON data.
\<close>

datatype field =
    AnthropicResponse anthropic_message
  | OpenAIResponse openai_message
  | Json jsval

record reply =
  status :: nat
  body :: "(string \<times> field) list"

text \<open>\<^verbatim>\<open>res.status(code).json({ error: msg })\<close>.\<close>

definition error_reply :: "nat \<Rightarrow> string \<Rightarrow> reply" where
  "error_reply code msg = \<lparr>status = code, body = [(''error'', Json (JStr msg))]\<rparr>"

text \<open>
  \<^verbatim>\<open>Array.prototype.map\<close> with a callback that may throw: elements are visited in
  order and the first exception ends the call.
\<close>

fun map_throwing :: "('a \<Rightarrow> js_error + 'b) \<Rightarrow> 'a list \<Rightarrow> js_error + 'b list" where
  "map_throwing f [] = Inr []"
| "map_throwing f (x # xs) =
     (case f x of
        Inl e \<Rightarrow> Inl e
      | Inr y \<Rightarrow> (case map_throwing f xs of Inl e \<Rightarrow> Inl e | Inr ys \<Rightarrow> Inr (y # ys)))"

text \<open>
  \<^verbatim>\<open>v.map(f)\<close> on a value of a request body: only an array has a \<^verbatim>\<open>map\<close> method.
\<close>

fun js_map :: "(jsval \<Rightarrow> js_error + jsval) \<Rightarrow> jsval \<Rightarrow> js_error + jsval list" where
  "js_map f (JArr xs) = map_throwing f xs"
| "js_map f JUndefined = Inl (JsError ''Cannot read properties of undefined (reading 'map')'')"
| "js_map f JNull = Inl (JsError ''Cannot read properties of null (reading 'map')'')"
| "js_map f v = Inl (JsError ''map is not a function'')"

text \<open>\<^verbatim>\<open>msg => ({ role: msg.role, content: msg.content })\<close>.\<close>

definition clean_message :: "jsval \<Rightarrow> js_error + jsval" where
  "clean_message msg =
     (case get_prop msg ''role'' of
        Inl e \<Rightarrow> Inl e
      | Inr r \<Rightarrow>
          (case get_prop msg ''content'' of
             Inl e \<Rightarrow> Inl e
           | Inr c \<Rightarrow> Inr (JObj [(''role'', r), (''content'', c)])))"

text \<open>The two provider formats of a tool descriptor.\<close>

definition claude_tool :: "tool \<Rightarrow> jsval" where
  "claude_tool t =
     JObj [(''name'', JStr (name t)), (''description'', description t),
           (''input_schema'', inputSchema t)]"

definition openai_tool :: "tool \<Rightarrow> jsval" where
  "openai_tool t =
     JObj [(''type'', JStr ''function''),
           (''function'', JObj [(''name'', JStr (name t)), (''description'', description t),
                                (''parameters'', inputSchema t)])]"

subsection \<open>The Anthropic variant (src/server.js)\<close>

text \<open>
  The loop over \<^verbatim>\<open>response.content\<close>: each \<^verbatim>\<open>tool_use\<close> block is executed
  inside its own \<^verbatim>\<open>try\<close>; the \<^verbatim>\<open>catch\<close> pushes an entry with
  \<^verbatim>\<open>error: error.message\<close>.
\<close>

fun anthropic_tool_loop ::
  "world \<Rightarrow> state \<Rightarrow> anthropic_block list \<Rightarrow> jsval list \<Rightarrow> jsval list \<times> state" where
  "anthropic_tool_loop w s [] toolResults = (toolResults, s)"
| "anthropic_tool_loop w s (block # blocks) toolResults =
     (if block_type block = ''tool_use'' then
        (case callTool w s (block_name block) (block_input block) of
           (Inr result, s') \<Rightarrow>
             anthropic_tool_loop w s' blocks
               (toolResults @
                [JObj [(''tool_use_id'', JStr (block_id block)), (''name'', JStr (block_name block)),
                       (''input'', block_input block), (''result'', result)]])
         | (Inl error, s') \<Rightarrow>
             anthropic_tool_loop w s' blocks
               (toolResults @
                [JObj [(''tool_use_id'', JStr (block_id block)), (''name'', JStr (block_name block)),
                       (''input'', block_input block), (''error'', JStr (message error))]]))
      else anthropic_tool_loop w s blocks toolResults)"

text \<open>The body of the \<^verbatim>\<open>try\<close> of \<^verbatim>\<open>POST /api/chat\<close>.\<close>

definition chat_anthropic_try :: "world \<Rightarrow> state \<Rightarrow> jsval \<Rightarrow> (js_error + reply) \<times> state" where
  "chat_anthropic_try w s req_body =
     (case get_prop req_body ''messages'' of
        Inl e \<Rightarrow> (Inl e, s)
      | Inr messages \<Rightarrow>
          if \<not> truthy messages \<or> \<not> isArray messages
          then (Inr (error_reply 400 ''Messages array is required''), s)
          else if \<not> isReady s
          then (Inr (error_reply 503 ''MCP client not connected''), s)
          else
            (case js_map clean_message messages of
               Inl e \<Rightarrow> (Inl e, s)
             | Inr cleanedMessages \<Rightarrow>
                 (let claudeTools = map claude_tool (getTools s);
                      created = anthropic_create w (trace s) cleanedMessages claudeTools;
                      s1 = s\<lparr>trace := trace s @ [ModelCreate cleanedMessages claudeTools]\<rparr>
                  in case created of
                       Inl e \<Rightarrow> (Inl e, s1)
                     | Inr response \<Rightarrow>
                         if stop_reason response = ''tool_use''
                         then
                           (case anthropic_tool_loop w s1 (content response) [] of
                              (toolResults, s2) \<Rightarrow>
                                (Inr \<lparr>status = 200,
                                      body = [(''response'', AnthropicResponse response),
                                              (''toolResults'', Json (JArr toolResults)),
                                              (''needsToolResponse'', Json (JBool True))]\<rparr>, s2))
                         else
                           (Inr \<lparr>status = 200,
                                 body = [(''response'', AnthropicResponse response),
                                         (''needsToolResponse'', Json (JBool False))]\<rparr>, s1))))"

text \<open>The handler: the outer \<^verbatim>\<open>catch\<close> turns any exception into a 500.\<close>

definition chat_anthropic :: "world \<Rightarrow> state \<Rightarrow> jsval \<Rightarrow> reply \<times> state" where
  "chat_anthropic w s req_body =
     (case chat_anthropic_try w s req_body of
        (Inl error, s') \<Rightarrow> (error_reply 500 (message error), s')
      | (Inr r, s') \<Rightarrow> (r, s'))"

text \<open>
  The text the template literal \<^verbatim>\<open>`${v}`\<close> makes of a value; the conversion may
  throw.
\<close>

definition template_text :: "world \<Rightarrow> jsval \<Rightarrow> js_error + string" where
  "template_text w v = js_String (Number_toString w) v"

text \<open>
  \<^verbatim>\<open>tr.error ? `Error: ${tr.error}` : JSON.stringify(tr.result)\<close>, shared by the two
  continuation handlers.
\<close>

definition tool_result_text :: "world \<Rightarrow> jsval \<Rightarrow> js_error + jsval" where
  "tool_result_text w tr =
     (case get_prop tr ''error'' of
        Inl e \<Rightarrow> Inl e
      | Inr err \<Rightarrow>
          if truthy err
          then (case template_text w err of
                  Inl e \<Rightarrow> Inl e
                | Inr t \<Rightarrow> Inr (JStr (''Error: '' @ t)))
          else (case get_prop tr ''result'' of
                  Inl e \<Rightarrow> Inl e
                | Inr result \<Rightarrow> Inr (JSON_stringify w result)))"

definition anthropic_tool_result :: "world \<Rightarrow> jsval \<Rightarrow> js_error + jsval" where
  "anthropic_tool_result w tr =
     (case get_prop tr ''tool_use_id'' of
        Inl e \<Rightarrow> Inl e
      | Inr tool_use_id \<Rightarrow>
          (case tool_result_text w tr of
             Inl e \<Rightarrow> Inl e
           | Inr text \<Rightarrow>
               Inr (JObj [(''type'', JStr ''tool_result''), (''tool_use_id'', tool_use_id),
                          (''content'', text)])))"

text \<open>The conversation \<^verbatim>\<open>POST /api/chat/continue\<close> builds.\<close>

definition anthropic_updatedMessages :: "world \<Rightarrow> jsval \<Rightarrow> js_error + jsval list" where
  "anthropic_updatedMessages w req_body =
     (case get_prop req_body ''messages'' of
        Inl e \<Rightarrow> Inl e
      | Inr messages \<Rightarrow>
     (case get_prop req_body ''toolResults'' of
        Inl e \<Rightarrow> Inl e
      | Inr toolResults \<Rightarrow>
     (case get_prop req_body ''assistantResponse'' of
        Inl e \<Rightarrow> Inl e
      | Inr assistantResponse \<Rightarrow>
     (case js_map clean_message messages of
        Inl e \<Rightarrow> Inl e
      | Inr cleanedMessages \<Rightarrow>
     (case js_map (anthropic_tool_result w) toolResults of
        Inl e \<Rightarrow> Inl e
      | Inr toolResultContent \<Rightarrow>
     (case get_prop assistantResponse ''content'' of
        Inl e \<Rightarrow> Inl e
      | Inr assistantContent \<Rightarrow>
          Inr (cleanedMessages @
               [JObj [(''role'', JStr ''assistant''), (''content'', assistantContent)],
                JObj [(''role'', JStr ''user''), (''content'', JArr toolResultContent)]])))))))"

definition continue_anthropic_try :: "world \<Rightarrow> state \<Rightarrow> jsval \<Rightarrow> (js_error + reply) \<times> state" where
  "continue_anthropic_try w s req_body =
     (case anthropic_updatedMessages w req_body of
        Inl e \<Rightarrow> (Inl e, s)
      | Inr updatedMessages \<Rightarrow>
          (let claudeTools = map claude_tool (getTools s);
               created = anthropic_create w (trace s) updatedMessages claudeTools;
               s1 = s\<lparr>trace := trace s @ [ModelCreate updatedMessages claudeTools]\<rparr>
           in case created of
                Inl e \<Rightarrow> (Inl e, s1)
              | Inr response \<Rightarrow>
                  (Inr \<lparr>status = 200,
                        body = [(''response'', AnthropicResponse response),
                                (''needsToolResponse'',
                                 Json (JBool (stop_reason response = ''tool_use'')))]\<rparr>, s1)))"

definition continue_anthropic :: "world \<Rightarrow> state \<Rightarrow> jsval \<Rightarrow> reply \<times> state" where
  "continue_anthropic w s req_body =
     (case continue_anthropic_try w s req_body of
        (Inl error, s') \<Rightarrow> (error_reply 500 (message error), s')
      | (Inr r, s') \<Rightarrow> (r, s'))"

subsection \<open>The OpenAI variant\<close>

text \<open>
  The lazy reconnect both OpenAI handlers start with:
  \<^verbatim>\<open>if (!mcpClient.isReady()) { const connected = await mcpClient.initialize(); ... }\<close>.
  The result tells whether the handler goes on.
\<close>

definition ensure_ready :: "world \<Rightarrow> state \<Rightarrow> bool \<times> state" where
  "ensure_ready w s = (if \<not> isReady s then initialize w s else (True, s))"

text \<open>
  The \<^verbatim>\<open>try\<close> block of one tool call: parse the arguments, call the tool, build the
  entry with \<^verbatim>\<open>result\<close>.
\<close>

definition openai_tool_try :: "world \<Rightarrow> state \<Rightarrow> tool_call \<Rightarrow> (js_error + jsval) \<times> state" where
  "openai_tool_try w s toolCall =
     (case JSON_parse w (function_arguments toolCall) of
        Inl e \<Rightarrow> (Inl e, s)
      | Inr args \<Rightarrow>
          (case callTool w s (function_name toolCall) args of
             (Inl e, s') \<Rightarrow> (Inl e, s')
           | (Inr result, s') \<Rightarrow>
               (Inr (JObj [(''tool_call_id'', JStr (call_id toolCall)),
                           (''name'', JStr (function_name toolCall)),
                           (''arguments'', args), (''result'', result)]), s')))"

text \<open>
  The loop over \<^verbatim>\<open>message.tool_calls\<close>.  The \<^verbatim>\<open>catch\<close> of a call builds its
  entry with \<^verbatim>\<open>arguments: JSON.parse(toolCall.function.arguments)\<close>; when that
  throws, nothing is pushed and the exception leaves the loop.
\<close>

fun openai_tool_loop ::
  "world \<Rightarrow> state \<Rightarrow> tool_call list \<Rightarrow> jsval list \<Rightarrow> (js_error + jsval list) \<times> state" where
  "openai_tool_loop w s [] toolResults = (Inr toolResults, s)"
| "openai_tool_loop w s (toolCall # rest) toolResults =
     (case openai_tool_try w s toolCall of
        (Inr entry, s') \<Rightarrow> openai_tool_loop w s' rest (toolResults @ [entry])
      | (Inl error, s') \<Rightarrow>
          (case JSON_parse w (function_arguments toolCall) of
             Inl error2 \<Rightarrow> (Inl error2, s')
           | Inr args \<Rightarrow>
               openai_tool_loop w s' rest
                 (toolResults @
                  [JObj [(''tool_call_id'', JStr (call_id toolCall)),
                         (''name'', JStr (function_name toolCall)),
                         (''arguments'', args), (''error'', JStr (message error))]])))"

text \<open>\<^verbatim>\<open>response.choices[0].message\<close>; the list holds the message of each choice.\<close>

definition first_choice_message :: "openai_message list \<Rightarrow> js_error + openai_message" where
  "first_choice_message choices =
     (case choices of
        [] \<Rightarrow> Inl (JsError ''Cannot read properties of undefined (reading 'message')'')
      | m # ms \<Rightarrow> Inr m)"

text \<open>\<^verbatim>\<open>message.tool_calls && message.tool_calls.length > 0\<close>.\<close>

definition has_tool_calls :: "openai_message \<Rightarrow> bool" where
  "has_tool_calls m = (case tool_calls m of None \<Rightarrow> False | Some cs \<Rightarrow> length cs > 0)"

text \<open>The calls the loop iterates over: \<^verbatim>\<open>message.tool_calls\<close> when it is there.\<close>

definition requested_calls :: "openai_message \<Rightarrow> tool_call list" where
  "requested_calls m = (case tool_calls m of None \<Rightarrow> [] | Some cs \<Rightarrow> cs)"

text \<open>
  What the \<^verbatim>\<open>try\<close> of \<^verbatim>\<open>POST /api/chat\<close> does once the tool client is ready.
\<close>

definition chat_openai_ready :: "world \<Rightarrow> state \<Rightarrow> jsval \<Rightarrow> (js_error + reply) \<times> state" where
  "chat_openai_ready w s messages =
     (case js_map clean_message messages of
        Inl e \<Rightarrow> (Inl e, s)
      | Inr cleanedMessages \<Rightarrow>
          (let openaiTools = map openai_tool (getTools s);
               created = openai_create w (trace s) cleanedMessages openaiTools;
               s1 = s\<lparr>trace := trace s @ [ModelCreate cleanedMessages openaiTools]\<rparr>
           in case created of
                Inl e \<Rightarrow> (Inl e, s1)
              | Inr choices \<Rightarrow>
                  (case first_choice_message choices of
                     Inl e \<Rightarrow> (Inl e, s1)
                   | Inr msg \<Rightarrow>
                       if has_tool_calls msg
                       then
                         (case openai_tool_loop w s1 (requested_calls msg) [] of
                            (Inl e, s2) \<Rightarrow> (Inl e, s2)
                          | (Inr toolResults, s2) \<Rightarrow>
                              (Inr \<lparr>status = 200,
                                    body = [(''response'', OpenAIResponse msg),
                                            (''toolResults'', Json (JArr toolResults)),
                                            (''needsToolResponse'', Json (JBool True))]\<rparr>, s2))
                       else
                         (Inr \<lparr>status = 200,
                               body = [(''response'', OpenAIResponse msg),
                                       (''needsToolResponse'', Json (JBool False))]\<rparr>, s1))))"

definition chat_openai_try :: "world \<Rightarrow> state \<Rightarrow> jsval \<Rightarrow> (js_error + reply) \<times> state" where
  "chat_openai_try w s req_body =
     (case get_prop req_body ''messages'' of
        Inl e \<Rightarrow> (Inl e, s)
      | Inr messages \<Rightarrow>
          if \<not> truthy messages \<or> \<not> isArray messages
          then (Inr (error_reply 400 ''Messages array is required''), s)
          else
            (case ensure_ready w s of
               (False, s') \<Rightarrow> (Inr (error_reply 503 ''MCP client failed to connect''), s')
             | (True, s') \<Rightarrow> chat_openai_ready w s' messages))"

definition chat_openai :: "world \<Rightarrow> state \<Rightarrow> jsval \<Rightarrow> reply \<times> state" where
  "chat_openai w s req_body =
     (case chat_openai_try w s req_body of
        (Inl error, s') \<Rightarrow> (error_reply 500 (message error), s')
      | (Inr r, s') \<Rightarrow> (r, s'))"

definition openai_tool_result :: "world \<Rightarrow> jsval \<Rightarrow> js_error + jsval" where
  "openai_tool_result w tr =
     (case get_prop tr ''tool_call_id'' of
        Inl e \<Rightarrow> Inl e
      | Inr tool_call_id \<Rightarrow>
          (case tool_result_text w tr of
             Inl e \<Rightarrow> Inl e
           | Inr text \<Rightarrow>
               Inr (JObj [(''role'', JStr ''tool''), (''tool_call_id'', tool_call_id),
                          (''content'', text)])))"

definition openai_updatedMessages :: "world \<Rightarrow> jsval \<Rightarrow> js_error + jsval list" where
  "openai_updatedMessages w req_body =
     (case get_prop req_body ''messages'' of
        Inl e \<Rightarrow> Inl e
      | Inr messages \<Rightarrow>
     (case get_prop req_body ''toolResults'' of
        Inl e \<Rightarrow> Inl e
      | Inr toolResults \<Rightarrow>
     (case get_prop req_body ''assistantResponse'' of
        Inl e \<Rightarrow> Inl e
      | Inr assistantResponse \<Rightarrow>
     (case js_map clean_message messages of
        Inl e \<Rightarrow> Inl e
      | Inr cleanedMessages \<Rightarrow>
     (case js_map (openai_tool_result w) toolResults of
        Inl e \<Rightarrow> Inl e
      | Inr toolResultMessages \<Rightarrow>
          Inr (cleanedMessages @ [assistantResponse] @ toolResultMessages))))))"

text \<open>
  \<^verbatim>\<open>needsToolResponse: message.tool_calls && message.tool_calls.length > 0\<close> is
  \<^verbatim>\<open>undefined\<close> when the message has no \<^verbatim>\<open>tool_calls\<close>.
\<close>

definition continue_openai_try :: "world \<Rightarrow> state \<Rightarrow> jsval \<Rightarrow> (js_error + reply) \<times> state" where
  "continue_openai_try w s req_body =
     (case ensure_ready w s of
        (False, s') \<Rightarrow> (Inr (error_reply 503 ''MCP client failed to connect''), s')
      | (True, s') \<Rightarrow>
          (case openai_updatedMessages w req_body of
             Inl e \<Rightarrow> (Inl e, s')
           | Inr updatedMessages \<Rightarrow>
               (let openaiTools = map openai_tool (getTools s');
                    created = openai_create w (trace s') updatedMessages openaiTools;
                    s1 = s'\<lparr>trace := trace s' @ [ModelCreate updatedMessages openaiTools]\<rparr>
                in case created of
                     Inl e \<Rightarrow> (Inl e, s1)
                   | Inr choices \<Rightarrow>
                       (case first_choice_message choices of
                          Inl e \<Rightarrow> (Inl e, s1)
                        | Inr msg \<Rightarrow>
                            (Inr \<lparr>status = 200,
                                  body = [(''response'', OpenAIResponse msg),
                                          (''needsToolResponse'',
                                           Json (case tool_calls msg of
                                                   None \<Rightarrow> JUndefined
                                                 | Some cs \<Rightarrow> JBool (length cs > 0)))]\<rparr>,
                             s1)))))"

definition continue_openai :: "world \<Rightarrow> state \<Rightarrow> jsval \<Rightarrow> reply \<times> state" where
  "continue_openai w s req_body =
     (case continue_openai_try w s req_body of
        (Inl error, s') \<Rightarrow> (error_reply 500 (message error), s')
      | (Inr r, s') \<Rightarrow> (r, s'))"

section \<open>The chat store (chatDatabase.js)\<close>

text \<open>
  The store is the external database, reached through the Supabase client.  It is
  modelled as its two tables with the filter semantics of the query builder: \<^verbatim>\<open>eq\<close>
  keeps the rows whose column has the value, \<^verbatim>\<open>single()\<close> answers with an error
  unless exactly one row is left, \<^verbatim>\<open>update\<close> and \<^verbatim>\<open>delete\<close> touch exactly the
  rows the filters keep and answer without an error when there are none.  Timestamps are
  natural numbers, and the message columns the database fills in itself are left out.
\<close>

record chat_row =
  chat_id :: string
  user_id :: string
  title :: string
  created_at :: nat

record message_row =
  message_chat_id :: string
  role :: string
  message_content :: string
  message_created_at :: nat

record db =
  chats :: "chat_row list"
  messages :: "message_row list"

text \<open>
  A request to the database may go wrong on its own: the client then answers with an
  \<^verbatim>\<open>error\<close>, or throws.  A request that goes wrong changes no row.
\<close>

datatype fault = NoFault | ErrorReturned string | Thrown string

text \<open>The object a store function returns: \<^verbatim>\<open>{ success: false, error }\<close> or
  \<^verbatim>\<open>{ success: true, ... }\<close> with its payload.\<close>

datatype 'a outcome = Failure string | Success 'a

fun success :: "'a outcome \<Rightarrow> bool" where
  "success (Failure msg) = False"
| "success (Success x) = True"

text \<open>\<^verbatim>\<open>.single()\<close>.\<close>

fun single :: "'a list \<Rightarrow> string + 'a" where
  "single [r] = Inr r"
| "single rs = Inl ''JSON object requested, multiple (or no) rows returned''"

text \<open>\<^verbatim>\<open>data[0]\<close>: \<^verbatim>\<open>undefined\<close> on an empty array.\<close>

fun first_row :: "'a list \<Rightarrow> 'a option" where
  "first_row [] = None"
| "first_row (r # rs) = Some r"

text \<open>
  The ownership check of \<^verbatim>\<open>getChatWithMessages\<close>, \<^verbatim>\<open>addMessageToChat\<close> and
  \<^verbatim>\<open>deleteChat\<close>: select the chat by \<^verbatim>\<open>id\<close> and \<^verbatim>\<open>user_id\<close>, \<^verbatim>\<open>single()\<close>,
  then \<^verbatim>\<open>if (chatError || !chatData)\<close>.  \<^verbatim>\<open>Inl\<close> is what the function returns
  when the check does not pass.
\<close>

definition verify_owner :: "db \<Rightarrow> fault \<Rightarrow> string \<Rightarrow> string \<Rightarrow> string + chat_row" where
  "verify_owner d f chatId userId =
     (case f of
        Thrown msg \<Rightarrow> Inl msg
      | ErrorReturned msg \<Rightarrow> Inl ''Chat not found''
      | NoFault \<Rightarrow>
          (case single (filter (\<lambda>c. chat_id c = chatId \<and> user_id c = userId) (chats d)) of
             Inl chatError \<Rightarrow> Inl ''Chat not found''
           | Inr chatData \<Rightarrow> Inr chatData))"

definition getChatWithMessages ::
  "db \<Rightarrow> (nat \<Rightarrow> fault) \<Rightarrow> string \<Rightarrow> string \<Rightarrow> (chat_row \<times> message_row list) outcome \<times> db" where
  "getChatWithMessages d faults chatId userId =
     (case verify_owner d (faults 0) chatId userId of
        Inl msg \<Rightarrow> (Failure msg, d)
      | Inr chatData \<Rightarrow>
          (case faults 1 of
             Thrown msg \<Rightarrow> (Failure msg, d)
           | ErrorReturned msg \<Rightarrow> (Failure msg, d)
           | NoFault \<Rightarrow>
               (Success (chatData,
                         sort_key message_created_at
                           (filter (\<lambda>m. message_chat_id m = chatId) (messages d))), d)))"

definition addMessageToChat ::
  "db \<Rightarrow> (nat \<Rightarrow> fault) \<Rightarrow> nat \<Rightarrow> string \<Rightarrow> string \<Rightarrow> string \<Rightarrow> string \<Rightarrow>
   message_row option outcome \<times> db" where
  "addMessageToChat d faults now chatId msg_role msg_content userId =
     (case verify_owner d (faults 0) chatId userId of
        Inl msg \<Rightarrow> (Failure msg, d)
      | Inr chatData \<Rightarrow>
          (case faults 1 of
             Thrown msg \<Rightarrow> (Failure msg, d)
           | ErrorReturned msg \<Rightarrow> (Failure msg, d)
           | NoFault \<Rightarrow>
               (let row = \<lparr>message_chat_id = chatId, role = msg_role,
                           message_content = msg_content, message_created_at = now\<rparr>
                in (Success (first_row [row]), d\<lparr>messages := messages d @ [row]\<rparr>))))"

text \<open>
  \<^verbatim>\<open>updateChatTitle\<close> has no check of its own: the update is filtered by \<^verbatim>\<open>id\<close>
  and \<^verbatim>\<open>user_id\<close>, and the function returns \<^verbatim>\<open>{ success: true, chat: data[0] }\<close>
  whenever the update answers without an error.
\<close>

definition updateChatTitle ::
  "db \<Rightarrow> (nat \<Rightarrow> fault) \<Rightarrow> string \<Rightarrow> string \<Rightarrow> string \<Rightarrow> chat_row option outcome \<times> db" where
  "updateChatTitle d faults chatId new_title userId =
     (case faults 0 of
        Thrown msg \<Rightarrow> (Failure msg, d)
      | ErrorReturned msg \<Rightarrow> (Failure msg, d)
      | NoFault \<Rightarrow>
          (let hit = (\<lambda>c. chat_id c = chatId \<and> user_id c = userId);
               data = map (\<lambda>c. c\<lparr>title := new_title\<rparr>) (filter hit (chats d))
           in (Success (first_row data),
               d\<lparr>chats := map (\<lambda>c. if hit c then c\<lparr>title := new_title\<rparr> else c) (chats d)\<rparr>)))"

definition deleteChat :: "db \<Rightarrow> (nat \<Rightarrow> fault) \<Rightarrow> string \<Rightarrow> string \<Rightarrow> unit outcome \<times> db" where
  "deleteChat d faults chatId userId =
     (case verify_owner d (faults 0) chatId userId of
        Inl msg \<Rightarrow> (Failure msg, d)
      | Inr chatData \<Rightarrow>
          (case faults 1 of
             Thrown msg \<Rightarrow> (Failure msg, d)
           | ErrorReturned msg \<Rightarrow> (Failure msg, d)
           | NoFault \<Rightarrow>
               (let d1 = d\<lparr>messages := filter (\<lambda>m. message_chat_id m \<noteq> chatId) (messages d)\<rparr>
                in case faults 2 of
                     Thrown msg \<Rightarrow> (Failure msg, d1)
                   | ErrorReturned msg \<Rightarrow> (Failure msg, d1)
                   | NoFault \<Rightarrow>
                       (Success (), d1\<lparr>chats := filter (\<lambda>c. chat_id c \<noteq> chatId) (chats d1)\<rparr>))))"

section \<open>Notions used in the statements\<close>

text \<open>The value of \<^verbatim>\<open>v.k\<close> where the access does not throw.\<close>

definition field_of :: "jsval \<Rightarrow> string \<Rightarrow> jsval" where
  "field_of v k = (case get_prop v k of Inl e \<Rightarrow> JUndefined | Inr x \<Rightarrow> x)"

text \<open>The blocks of a provider response that request a tool, in the order emitted.\<close>

definition tool_use_blocks :: "anthropic_message \<Rightarrow> anthropic_block list" where
  "tool_use_blocks response = filter (\<lambda>b. block_type b = ''tool_use'') (content response)"

text \<open>Whether the arguments string of a call is valid JSON, and the data it stands for.\<close>

definition parses :: "world \<Rightarrow> tool_call \<Rightarrow> bool" where
  "parses w c = (case JSON_parse w (function_arguments c) of Inl e \<Rightarrow> False | Inr a \<Rightarrow> True)"

definition parsed_arguments :: "world \<Rightarrow> tool_call \<Rightarrow> jsval" where
  "parsed_arguments w c =
     (case JSON_parse w (function_arguments c) of Inl e \<Rightarrow> JUndefined | Inr a \<Rightarrow> a)"

text \<open>The remote calls a list of requests stands for.\<close>

definition block_call :: "anthropic_block \<Rightarrow> event" where
  "block_call b = RemoteCallTool (block_name b) (block_input b)"

definition tool_call_event :: "world \<Rightarrow> tool_call \<Rightarrow> event" where
  "tool_call_event w c = RemoteCallTool (function_name c) (parsed_arguments w c)"

text \<open>
  Whether the content of a tool result can be made (the result is an object or a
  primitive, and the conversion of a truthy \<^verbatim>\<open>error\<close> to text does not throw), and
  what it then is.
\<close>

definition renders :: "world \<Rightarrow> jsval \<Rightarrow> bool" where
  "renders w tr =
     (\<not> nullish tr \<and> (case tool_result_text w tr of Inl e \<Rightarrow> False | Inr c \<Rightarrow> True))"

definition rendered_text :: "world \<Rightarrow> jsval \<Rightarrow> jsval" where
  "rendered_text w tr = (case tool_result_text w tr of Inl e \<Rightarrow> JUndefined | Inr c \<Rightarrow> c)"

text \<open>The events that are executions of a tool.\<close>

fun is_tool_call :: "event \<Rightarrow> bool" where
  "is_tool_call (RemoteCallTool toolName args) = True"
| "is_tool_call e = False"

section \<open>Example environments\<close>

text \<open>
  A tool service with one tool, \<^verbatim>\<open>search\<close>, which answers \<^verbatim>\<open>{hits: []}\<close>, and
  providers that answer with a given turn and reject an empty conversation.
  \<^verbatim>\<open>JSON.parse\<close> and \<^verbatim>\<open>JSON.stringify\<close> agree with JavaScript's on the
  values the examples give them; the examples convert no number to text.
\<close>

definition search_tool :: tool where
  "search_tool =
     \<lparr>name = ''search'', description = JStr ''Search the documentation'',
      inputSchema = JObj [(''type'', JStr ''object'')]\<rparr>"

definition example_world :: "anthropic_message \<Rightarrow> openai_message \<Rightarrow> world" where
  \<open>example_world anthropic_turn openai_turn =
     \<lparr>sdk_connect = (\<lambda>tr. None),
      sdk_listTools = (\<lambda>tr. Inr [search_tool]),
      sdk_callTool = (\<lambda>tr toolName args.
         if toolName = ''search'' then Inr (JObj [(''hits'', JArr [])])
         else Inl (JsError ''Unknown tool'')),
      anthropic_create = (\<lambda>tr ms ts.
         if ms = [] then Inl (JsError ''messages: at least one message is required'')
         else Inr anthropic_turn),
      openai_create = (\<lambda>tr ms ts.
         if ms = [] then Inl (JsError ''messages: array too short'')
         else Inr [openai_turn]),
      JSON_parse = (\<lambda>text.
         if text = ''{"q":"x"}'' then Inr (JObj [(''q'', JStr ''x'')])
         else if text = ''{}'' then Inr (JObj [])
         else Inl (JsError ''Unexpected end of JSON input'')),
      JSON_stringify = (\<lambda>v.
         if v = JUndefined then JUndefined
         else if v = JObj [(''hits'', JArr [])] then JStr ''{"hits":[]}''
         else JStr ''null''),
      Number_toString = (\<lambda>n. ''0'')\<rparr>\<close>

definition anthropic_tool_turn :: anthropic_message where
  "anthropic_tool_turn =
     \<lparr>stop_reason = ''tool_use'',
      content =
        [\<lparr>block_type = ''text'', block_id = [], block_name = [], block_input = JUndefined\<rparr>,
         \<lparr>block_type = ''tool_use'', block_id = ''c1'', block_name = ''search'',
          block_input = JObj [(''q'', JStr ''x'')]\<rparr>,
         \<lparr>block_type = ''tool_use'', block_id = ''c2'', block_name = ''lookup'',
          block_input = JObj []\<rparr>]\<rparr>"

definition anthropic_final_turn :: anthropic_message where
  "anthropic_final_turn =
     \<lparr>stop_reason = ''end_turn'',
      content =
        [\<lparr>block_type = ''text'', block_id = [], block_name = [], block_input = JUndefined\<rparr>]\<rparr>"

definition openai_tool_turn :: openai_message where
  \<open>openai_tool_turn =
     \<lparr>openai_content = JNull,
      tool_calls =
        Some [\<lparr>call_id = ''c1'', function_name = ''search'', function_arguments = ''{"q":"x"}''\<rparr>,
              \<lparr>call_id = ''c2'', function_name = ''lookup'', function_arguments = ''{}''\<rparr>]\<rparr>\<close>

definition openai_final_turn :: openai_message where
  "openai_final_turn = \<lparr>openai_content = JStr ''Hello'', tool_calls = None\<rparr>"

text \<open>A turn whose second call carries a truncated arguments string.\<close>

definition openai_malformed_turn :: openai_message where
  \<open>openai_malformed_turn =
     \<lparr>openai_content = JNull,
      tool_calls =
        Some [\<lparr>call_id = ''c1'', function_name = ''search'', function_arguments = ''{"q":"x"}''\<rparr>,
              \<lparr>call_id = ''c2'', function_name = ''search'', function_arguments = ''{"q":''\<rparr>,
              \<lparr>call_id = ''c3'', function_name = ''search'', function_arguments = ''{}''\<rparr>]\<rparr>\<close>

text \<open>A turn whose first call carries a truncated arguments string.\<close>

definition openai_truncated_turn :: openai_message where
  \<open>openai_truncated_turn =
     \<lparr>openai_content = JNull,
      tool_calls =
        Some [\<lparr>call_id = ''c1'', function_name = ''search'', function_arguments = ''{"q":''\<rparr>,
              \<lparr>call_id = ''c2'', function_name = ''search'', function_arguments = ''{}''\<rparr>]\<rparr>\<close>

text \<open>The same services with an unreachable tool endpoint.\<close>

definition offline_world :: "anthropic_message \<Rightarrow> openai_message \<Rightarrow> world" where
  "offline_world anthropic_turn openai_turn =
     (example_world anthropic_turn openai_turn)\<lparr>sdk_connect := (\<lambda>tr. Some (JsError ''fetch failed''))\<rparr>"


text \<open>The client after a successful \<^verbatim>\<open>initialize\<close> at start-up.\<close>

definition ready_client :: state where
  "ready_client =
     \<lparr>client = True, isConnected = True, tools = [search_tool], trace = [Connect, ListTools]\<rparr>"

definition hello_request :: jsval where
  "hello_request =
     JObj [(''messages'',
            JArr [JObj [(''role'', JStr ''user''), (''content'', JStr ''hi''),
                        (''isToolCall'', JBool False)]])]"

definition empty_request :: jsval where
  "empty_request = JObj [(''messages'', JArr [])]"

text \<open>
  A continuation request: one prior message, the assistant's tool request, and two tool
  results, the second with an \<^verbatim>\<open>error\<close>.
\<close>

definition continue_request :: jsval where
  "continue_request =
     JObj [(''messages'',
            JArr [JObj [(''role'', JStr ''user''), (''content'', JStr ''hi''),
                        (''isToolCall'', JBool False)]]),
           (''toolResults'',
            JArr [JObj [(''tool_call_id'', JStr ''c1''), (''tool_use_id'', JStr ''c1''),
                        (''name'', JStr ''search''), (''result'', JObj [(''hits'', JArr [])])],
                  JObj [(''tool_call_id'', JStr ''c2''), (''tool_use_id'', JStr ''c2''),
                        (''name'', JStr ''lookup''), (''error'', JStr ''Unknown tool'')]]),
           (''assistantResponse'',
            JObj [(''role'', JStr ''assistant''), (''content'', JNull)])]"

text \<open>A continuation request whose only tool result failed with an empty message.\<close>

definition empty_error_request :: jsval where
  "empty_error_request =
     JObj [(''messages'', JArr [JObj [(''role'', JStr ''user''), (''content'', JStr ''hi'')]]),
           (''toolResults'',
            JArr [JObj [(''tool_call_id'', JStr ''c1''), (''tool_use_id'', JStr ''c1''),
                        (''name'', JStr ''search''), (''error'', JStr [])]]),
           (''assistantResponse'',
            JObj [(''role'', JStr ''assistant''), (''content'', JNull)])]"

text \<open>
  A continuation request whose only tool result has for \<^verbatim>\<open>error\<close> an object with a
  \<^verbatim>\<open>toString\<close> key.
\<close>

definition unprintable_error_request :: jsval where
  "unprintable_error_request =
     JObj [(''messages'', JArr [JObj [(''role'', JStr ''user''), (''content'', JStr ''hi'')]]),
           (''toolResults'',
            JArr [JObj [(''tool_call_id'', JStr ''c1''), (''tool_use_id'', JStr ''c1''),
                        (''name'', JStr ''search''),
                        (''error'', JObj [(''toString'', JNull)])]]),
           (''assistantResponse'',
            JObj [(''role'', JStr ''assistant''), (''content'', JNull)])]"

text \<open>A store with one chat, owned by alice, holding one message.\<close>

definition example_db :: db where
  "example_db =
     \<lparr>chats = [\<lparr>chat_id = ''chat-1'', user_id = ''alice'', title = ''Plans'', created_at = 1\<rparr>],
      messages = [\<lparr>message_chat_id = ''chat-1'', role = ''user'', message_content = ''hi'',
                   message_created_at = 2\<rparr>]\<rparr>"

section \<open>The Tool Endpoint Client: lifecycle and \<^verbatim>\<open>callTool\<close>\<close>


lemma initialize_connect_failed:
  "\<not> fst (initialize_connect w s) \<Longrightarrow>
   snd (initialize_connect w s) = s\<lparr>client := True, trace := trace s @ [Connect], isConnected := False\<rparr>"
  by (simp add: initialize_connect_def Let_def split: option.splits)





text \<open>The uninterrupted call, spelled out.\<close>

lemma initialize_run:
  "initialize w s =
     (case sdk_connect w (trace s) of
        Some e \<Rightarrow>
          (False, s\<lparr>client := True, trace := trace s @ [Connect], isConnected := False\<rparr>)
      | None \<Rightarrow>
          (case sdk_listTools w (trace s @ [Connect]) of
             Inl e \<Rightarrow>
               (False, s\<lparr>client := True, trace := trace s @ [Connect, ListTools],
                         isConnected := False\<rparr>)
           | Inr ts \<Rightarrow>
               (True, s\<lparr>client := True, trace := trace s @ [Connect, ListTools],
                        isConnected := True, tools := ts\<rparr>)))"
  by (simp add: initialize_def initialize_connect_def initialize_listTools_def Let_def
           split: option.splits sum.splits)

lemma initialize_isReady: "isReady (snd (initialize w s)) = fst (initialize w s)"
  by (simp add: initialize_run isReady_def split: option.splits sum.splits)






lemma offline_initialize:
  "initialize (offline_world a b) new_MCPClientManager =
     (False, \<lparr>client = True, isConnected = False, tools = [], trace = [Connect]\<rparr>)"
  by (simp add: initialize_run offline_world_def example_world_def new_MCPClientManager_def)

lemma online_initialize:
  "initialize (example_world a b) \<lparr>client = True, isConnected = False, tools = [], trace = [Connect]\<rparr> =
     (True, \<lparr>client = True, isConnected = True, tools = [search_tool],
            trace = [Connect, Connect, ListTools]\<rparr>)"
  by (simp add: initialize_run example_world_def)






text \<open>
  C8.  While the client is not ready, \<^verbatim>\<open>callTool\<close> throws
  \<^verbatim>\<open>MCP client not connected\<close> and leaves the state, trace included, as it was: the
  remote service is not contacted.  While it is ready (as it is right after an
  \<^verbatim>\<open>initialize\<close> that returned \<^verbatim>\<open>true\<close>), the call goes to the remote service
  once, and what comes back, result or error, is handed on as it is.
\<close>

theorem callTool_contract:
  "(\<not> isReady s \<longrightarrow> callTool w s toolName args = (Inl (JsError ''MCP client not connected''), s)) \<and>
   (isReady s \<longrightarrow>
      callTool w s toolName args =
        (sdk_callTool w (trace s) toolName args,
         s\<lparr>trace := trace s @ [RemoteCallTool toolName args]\<rparr>)) \<and>
   (fst (initialize w s) \<longrightarrow> isReady (snd (initialize w s)))"
  by (simp add: callTool_def isReady_def initialize_run split: option.splits sum.splits)

theorem callTool_contract_witness:
  "callTool (example_world anthropic_final_turn openai_final_turn) new_MCPClientManager
     ''search'' (JObj [(''q'', JStr ''x'')]) =
     (Inl (JsError ''MCP client not connected''), new_MCPClientManager) \<and>
   callTool (example_world anthropic_final_turn openai_final_turn) ready_client
     ''search'' (JObj [(''q'', JStr ''x'')]) =
     (Inr (JObj [(''hits'', JArr [])]),
      ready_client\<lparr>trace := [Connect, ListTools, RemoteCallTool ''search'' (JObj [(''q'', JStr ''x'')])]\<rparr>) \<and>
   callTool (example_world anthropic_final_turn openai_final_turn) ready_client
     ''lookup'' (JObj []) =
     (Inl (JsError ''Unknown tool''),
      ready_client\<lparr>trace := [Connect, ListTools, RemoteCallTool ''lookup'' (JObj [])]\<rparr>) \<and>
   isReady (snd (initialize (example_world anthropic_final_turn openai_final_turn)
          \<lparr>client = True, isConnected = False, tools = [], trace = [Connect]\<rparr>))"
proof -
  let ?w = "example_world anthropic_final_turn openai_final_turn"
  have off: "\<not> isReady new_MCPClientManager"
    by (simp add: isReady_def new_MCPClientManager_def)
  have on: "isReady ready_client"
    by (simp add: isReady_def ready_client_def)
  have ok: "fst (initialize ?w \<lparr>client = True, isConnected = False, tools = [], trace = [Connect]\<rparr>)"
    by (simp add: online_initialize)
  show ?thesis
    using off on ok
      callTool_contract [of new_MCPClientManager ?w "''search''" "JObj [(''q'', JStr ''x'')]"]
      callTool_contract [of ready_client ?w "''search''" "JObj [(''q'', JStr ''x'')]"]
      callTool_contract [of ready_client ?w "''lookup''" "JObj []"]
      callTool_contract [of "\<lparr>client = True, isConnected = False, tools = [], trace = [Connect]\<rparr>" ?w]
    by (simp add: example_world_def ready_client_def)
qed

section \<open>The relay: what the handlers add to the trace\<close>

lemma callTool_connects:
  "callTool w s toolName args = (r, s') \<Longrightarrow> count_list (trace s') Connect = count_list (trace s) Connect"
  by (auto simp: callTool_def split: if_splits)

lemma openai_tool_try_connects:
  "openai_tool_try w s c = (r, s') \<Longrightarrow> count_list (trace s') Connect = count_list (trace s) Connect"
  by (auto simp: openai_tool_try_def split: sum.splits prod.splits dest: callTool_connects)

lemma openai_tool_loop_connects:
  "openai_tool_loop w s cs acc = (r, s') \<Longrightarrow>
   count_list (trace s') Connect = count_list (trace s) Connect"
proof (induction cs arbitrary: s acc)
  case Nil
  then show ?case by simp
next
  case (Cons c cs)
  obtain r1 s1 where t: "openai_tool_try w s c = (r1, s1)"
    by (cases "openai_tool_try w s c")
  have s1: "count_list (trace s1) Connect = count_list (trace s) Connect"
    using openai_tool_try_connects [OF t] .
  show ?case
  proof (cases r1)
    case (Inr entry)
    with Cons.prems t have "openai_tool_loop w s1 cs (acc @ [entry]) = (r, s')" by simp
    from Cons.IH [OF this] s1 show ?thesis by simp
  next
    case (Inl error)
    show ?thesis
    proof (cases "JSON_parse w (function_arguments c)")
      case (Inl error2)
      with Cons.prems t \<open>r1 = Inl error\<close> have "s' = s1" by simp
      with s1 show ?thesis by simp
    next
      case (Inr args)
      with Cons.prems t \<open>r1 = Inl error\<close>
      obtain acc' where "openai_tool_loop w s1 cs acc' = (r, s')" by simp
      from Cons.IH [OF this] s1 show ?thesis by simp
    qed
  qed
qed

lemma chat_openai_ready_connects:
  "chat_openai_ready w s m = (r, s') \<Longrightarrow>
   count_list (trace s') Connect = count_list (trace s) Connect"
  by (auto simp: chat_openai_ready_def Let_def split: sum.splits prod.splits if_splits
           dest!: openai_tool_loop_connects)

lemma initialize_trace:
  "trace (snd (initialize w s)) = trace s @ [Connect] \<or>
   trace (snd (initialize w s)) = trace s @ [Connect, ListTools]"
  by (simp add: initialize_run Let_def split: option.splits sum.splits)

lemma initialize_connects:
  "count_list (trace (snd (initialize w s))) Connect = Suc (count_list (trace s) Connect)"
  using initialize_trace [of w s] by auto

lemma chat_openai_ready_status:
  "chat_openai_ready w s m = (Inr r, s') \<Longrightarrow> status r = 200"
  by (auto simp: chat_openai_ready_def Let_def split: sum.splits prod.splits if_splits)

lemma chat_invalid_messages:
  assumes "get_prop req_body ''messages'' = Inr m" and "\<not> isArray m"
  shows "chat_anthropic w s req_body = (error_reply 400 ''Messages array is required'', s)"
    and "chat_openai w s req_body = (error_reply 400 ''Messages array is required'', s)"
  using assms
  by (simp_all add: chat_anthropic_def chat_anthropic_try_def chat_openai_def chat_openai_try_def)

lemma chat_openai_not_ready:
  assumes "get_prop req_body ''messages'' = Inr (JArr ms)" and "\<not> isReady s"
  shows "chat_openai w s req_body =
     (if fst (initialize w s)
      then (case chat_openai_ready w (snd (initialize w s)) (JArr ms) of
              (Inl error, s') \<Rightarrow> (error_reply 500 (message error), s')
            | (Inr r, s') \<Rightarrow> (r, s'))
      else (error_reply 503 ''MCP client failed to connect'', snd (initialize w s)))"
  using assms
  by (cases "initialize w s")
     (simp add: chat_openai_def chat_openai_try_def ensure_ready_def split: prod.splits sum.splits)

lemma callTool_extends:
  "callTool w s toolName args = (r, s') \<Longrightarrow> \<exists>evs. trace s' = trace s @ evs"
  by (auto simp: callTool_def split: if_splits)

lemma anthropic_tool_loop_extends:
  "anthropic_tool_loop w s blocks acc = (r, s') \<Longrightarrow> \<exists>evs. trace s' = trace s @ evs"
proof (induction blocks arbitrary: s acc)
  case Nil
  then show ?case by simp
next
  case (Cons b blocks)
  show ?case
  proof (cases "block_type b = ''tool_use''")
    case False
    with Cons.prems have "anthropic_tool_loop w s blocks acc = (r, s')" by simp
    from Cons.IH [OF this] show ?thesis .
  next
    case True
    obtain r1 s1 where c: "callTool w s (block_name b) (block_input b) = (r1, s1)"
      by (cases "callTool w s (block_name b) (block_input b)")
    from Cons.prems True c obtain acc' where "anthropic_tool_loop w s1 blocks acc' = (r, s')"
      by (cases r1) simp_all
    from Cons.IH [OF this] callTool_extends [OF c] show ?thesis by auto
  qed
qed

lemma openai_tool_try_extends:
  "openai_tool_try w s c = (r, s') \<Longrightarrow> \<exists>evs. trace s' = trace s @ evs"
  by (auto simp: openai_tool_try_def split: sum.splits prod.splits dest: callTool_extends)

lemma openai_tool_loop_extends:
  "openai_tool_loop w s cs acc = (r, s') \<Longrightarrow> \<exists>evs. trace s' = trace s @ evs"
proof (induction cs arbitrary: s acc)
  case Nil
  then show ?case by simp
next
  case (Cons c cs)
  obtain r1 s1 where t: "openai_tool_try w s c = (r1, s1)"
    by (cases "openai_tool_try w s c")
  from openai_tool_try_extends [OF t] obtain evs1 where s1: "trace s1 = trace s @ evs1" ..
  show ?case
  proof (cases r1)
    case (Inr entry)
    with Cons.prems t have "openai_tool_loop w s1 cs (acc @ [entry]) = (r, s')" by simp
    from Cons.IH [OF this] s1 show ?thesis by auto
  next
    case (Inl error)
    show ?thesis
    proof (cases "JSON_parse w (function_arguments c)")
      case (Inl error2)
      with Cons.prems t \<open>r1 = Inl error\<close> have "s' = s1" by simp
      with s1 show ?thesis by simp
    next
      case (Inr args)
      with Cons.prems t \<open>r1 = Inl error\<close>
      obtain acc' where "openai_tool_loop w s1 cs acc' = (r, s')" by simp
      from Cons.IH [OF this] s1 show ?thesis by auto
    qed
  qed
qed

lemma chat_anthropic_empty:
  assumes "get_prop req_body ''messages'' = Inr (JArr [])" and "isReady s"
  shows "status (fst (chat_anthropic w s req_body)) \<noteq> 400 \<and>
     (\<exists>evs. trace (snd (chat_anthropic w s req_body)) =
        trace s @ ModelCreate [] (map claude_tool (getTools s)) # evs)"
  using assms
  by (auto simp: chat_anthropic_def chat_anthropic_try_def Let_def error_reply_def
           split: sum.splits prod.splits dest!: anthropic_tool_loop_extends)

lemma chat_openai_empty:
  assumes "get_prop req_body ''messages'' = Inr (JArr [])" and "isReady s"
  shows "status (fst (chat_openai w s req_body)) \<noteq> 400 \<and>
     (\<exists>evs. trace (snd (chat_openai w s req_body)) =
        trace s @ ModelCreate [] (map openai_tool (getTools s)) # evs)"
  using assms
  by (auto simp: chat_openai_def chat_openai_try_def chat_openai_ready_def ensure_ready_def
                 Let_def error_reply_def
           split: sum.splits prod.splits dest!: openai_tool_loop_extends)

section \<open>Validation of \<^verbatim>\<open>messages\<close>\<close>

text \<open>
  C1, as amended.  A request whose \<^verbatim>\<open>messages\<close> field is not an array (missing,
  \<^verbatim>\<open>null\<close>, or any other value) is answered 400 with
  \<^verbatim>\<open>Messages array is required\<close> by both variants of the chat handler, and the
  state, trace included, is left as it was: neither the tool endpoint nor the provider is
  contacted.  The empty list is an array and passes the check: with a ready tool client
  both handlers submit the empty conversation to the provider as their next outside call,
  and the answer is never a 400.
\<close>

theorem messages_validation:
  "(get_prop req_body ''messages'' = Inr m \<and> \<not> isArray m \<longrightarrow>
      chat_anthropic w s req_body = (error_reply 400 ''Messages array is required'', s) \<and>
      chat_openai w s req_body = (error_reply 400 ''Messages array is required'', s)) \<and>
   (get_prop req_body ''messages'' = Inr (JArr []) \<and> isReady s \<longrightarrow>
      status (fst (chat_anthropic w s req_body)) \<noteq> 400 \<and>
      (\<exists>evs. trace (snd (chat_anthropic w s req_body)) =
         trace s @ ModelCreate [] (map claude_tool (getTools s)) # evs) \<and>
      status (fst (chat_openai w s req_body)) \<noteq> 400 \<and>
      (\<exists>evs. trace (snd (chat_openai w s req_body)) =
         trace s @ ModelCreate [] (map openai_tool (getTools s)) # evs))"
  using chat_invalid_messages [of req_body m w s]
    chat_anthropic_empty [of req_body s w] chat_openai_empty [of req_body s w]
  by blast

theorem messages_validation_witness:
  "get_prop (JObj []) ''messages'' = Inr JUndefined \<and>
   chat_anthropic (example_world anthropic_final_turn openai_final_turn) ready_client (JObj []) =
     (error_reply 400 ''Messages array is required'', ready_client) \<and>
   chat_openai (example_world anthropic_final_turn openai_final_turn) ready_client (JObj []) =
     (error_reply 400 ''Messages array is required'', ready_client) \<and>
   status (fst (chat_anthropic (example_world anthropic_final_turn openai_final_turn)
                  ready_client empty_request)) \<noteq> 400 \<and>
   status (fst (chat_openai (example_world anthropic_final_turn openai_final_turn)
                  ready_client empty_request)) \<noteq> 400"
proof -
  let ?w = "example_world anthropic_final_turn openai_final_turn"
  have missing: "get_prop (JObj []) ''messages'' = Inr JUndefined \<and> \<not> isArray JUndefined"
    by simp
  have empty: "get_prop empty_request ''messages'' = Inr (JArr []) \<and> isReady ready_client"
    by (simp add: empty_request_def isReady_def ready_client_def)
  show ?thesis
    using missing empty
      messages_validation [of "JObj []" JUndefined ?w ready_client]
      messages_validation [of empty_request JUndefined ?w ready_client]
    by blast
qed

text \<open>
  The empty list is not rejected: the Anthropic-variant handler, with a ready tool client,
  submits the empty conversation to the provider, which refuses it, and the relay answers
  500 with the provider's message.
\<close>

theorem empty_messages_counterexample:
  "chat_anthropic (example_world anthropic_final_turn openai_final_turn) ready_client empty_request =
     (error_reply 500 ''messages: at least one message is required'',
      ready_client\<lparr>trace := [Connect, ListTools, ModelCreate [] [claude_tool search_tool]]\<rparr>)"
  by (simp add: chat_anthropic_def chat_anthropic_try_def empty_request_def ready_client_def
        isReady_def getTools_def example_world_def)

section \<open>The lazy reconnect\<close>

text \<open>
  C4, as amended.  A request with a \<^verbatim>\<open>messages\<close> array that reaches the
  OpenAI-variant chat handler while the tool client is not ready causes exactly one
  connect attempt.  The answer is 503 exactly when that \<^verbatim>\<open>initialize\<close> returns
  \<^verbatim>\<open>false\<close>; it is then the bare error \<^verbatim>\<open>MCP client failed to connect\<close>, and
  nothing but the connect attempt left the process.  The Anthropic-variant handler makes
  no attempt: it answers 503 \<^verbatim>\<open>MCP client not connected\<close> with the state untouched.
  A request whose \<^verbatim>\<open>messages\<close> is not an array is answered 400 before any attempt.
\<close>

theorem lazy_reconnect:
  "(get_prop req_body ''messages'' = Inr (JArr ms) \<and> \<not> isReady s \<longrightarrow>
      count_list (trace (snd (chat_openai w s req_body))) Connect =
        Suc (count_list (trace s) Connect) \<and>
      (status (fst (chat_openai w s req_body)) = 503) = (\<not> fst (initialize w s)) \<and>
      (\<not> fst (initialize w s) \<longrightarrow>
         chat_openai w s req_body =
           (error_reply 503 ''MCP client failed to connect'', snd (initialize w s)) \<and>
         (trace (snd (initialize w s)) = trace s @ [Connect] \<or>
          trace (snd (initialize w s)) = trace s @ [Connect, ListTools])) \<and>
      chat_anthropic w s req_body = (error_reply 503 ''MCP client not connected'', s)) \<and>
   (get_prop req_body ''messages'' = Inr m \<and> \<not> isArray m \<longrightarrow>
      chat_openai w s req_body = (error_reply 400 ''Messages array is required'', s))"
proof -
  have valid: "chat_openai w s req_body = (error_reply 400 ''Messages array is required'', s)"
    if "get_prop req_body ''messages'' = Inr m" "\<not> isArray m"
    using chat_invalid_messages(2) [OF that] .
  have reconnect:
    "count_list (trace (snd (chat_openai w s req_body))) Connect =
        Suc (count_list (trace s) Connect) \<and>
     (status (fst (chat_openai w s req_body)) = 503) = (\<not> fst (initialize w s)) \<and>
     (\<not> fst (initialize w s) \<longrightarrow>
         chat_openai w s req_body =
           (error_reply 503 ''MCP client failed to connect'', snd (initialize w s)) \<and>
         (trace (snd (initialize w s)) = trace s @ [Connect] \<or>
          trace (snd (initialize w s)) = trace s @ [Connect, ListTools])) \<and>
     chat_anthropic w s req_body = (error_reply 503 ''MCP client not connected'', s)"
    if m: "get_prop req_body ''messages'' = Inr (JArr ms)" and nr: "\<not> isReady s"
  proof (cases "fst (initialize w s)")
    case False
    have eq: "chat_openai w s req_body =
        (error_reply 503 ''MCP client failed to connect'', snd (initialize w s))"
      using chat_openai_not_ready [OF m nr] False by simp
    have anth: "chat_anthropic w s req_body = (error_reply 503 ''MCP client not connected'', s)"
      using m nr by (simp add: chat_anthropic_def chat_anthropic_try_def)
    show ?thesis
      using eq anth False initialize_connects [of w s] initialize_trace [of w s]
      by (simp add: error_reply_def)
  next
    case True
    obtain r s' where run: "chat_openai_ready w (snd (initialize w s)) (JArr ms) = (r, s')"
      by (cases "chat_openai_ready w (snd (initialize w s)) (JArr ms)")
    have eq: "chat_openai w s req_body =
        (case r of Inl error \<Rightarrow> (error_reply 500 (message error), s') | Inr x \<Rightarrow> (x, s'))"
      using chat_openai_not_ready [OF m nr] True run by (simp split: sum.splits)
    have cnt: "count_list (trace s') Connect = Suc (count_list (trace s) Connect)"
      using chat_openai_ready_connects [OF run] initialize_connects [of w s] by simp
    have st: "status (fst (chat_openai w s req_body)) \<noteq> 503"
      using eq run chat_openai_ready_status [of w "snd (initialize w s)" "JArr ms" _ s']
      by (cases r) (simp_all add: error_reply_def)
    have anth: "chat_anthropic w s req_body = (error_reply 503 ''MCP client not connected'', s)"
      using m nr by (simp add: chat_anthropic_def chat_anthropic_try_def)
    show ?thesis
      using eq cnt st anth True by (cases r) simp_all
  qed
  show ?thesis using valid reconnect by blast
qed

theorem lazy_reconnect_witness:
  "chat_openai (offline_world anthropic_final_turn openai_final_turn) new_MCPClientManager
     hello_request =
     (error_reply 503 ''MCP client failed to connect'',
      \<lparr>client = True, isConnected = False, tools = [], trace = [Connect]\<rparr>) \<and>
   count_list (trace (snd (chat_openai (example_world anthropic_final_turn openai_final_turn)
     new_MCPClientManager hello_request))) Connect = 1 \<and>
   status (fst (chat_openai (example_world anthropic_final_turn openai_final_turn)
     new_MCPClientManager hello_request)) \<noteq> 503 \<and>
   chat_openai (offline_world anthropic_final_turn openai_final_turn) new_MCPClientManager
     (JObj []) =
     (error_reply 400 ''Messages array is required'', new_MCPClientManager)"
proof -
  let ?off = "offline_world anthropic_final_turn openai_final_turn"
  let ?on = "example_world anthropic_final_turn openai_final_turn"
  let ?ms = "[JObj [(''role'', JStr ''user''), (''content'', JStr ''hi''),
                    (''isToolCall'', JBool False)]]"
  have m: "get_prop hello_request ''messages'' = Inr (JArr ?ms)"
    by (simp add: hello_request_def)
  have nr: "\<not> isReady new_MCPClientManager"
    by (simp add: isReady_def new_MCPClientManager_def)
  have off: "initialize ?off new_MCPClientManager =
      (False, \<lparr>client = True, isConnected = False, tools = [], trace = [Connect]\<rparr>)"
    by (rule offline_initialize)
  have on: "fst (initialize ?on new_MCPClientManager)"
    by (simp add: initialize_run example_world_def new_MCPClientManager_def)
  have missing: "get_prop (JObj []) ''messages'' = Inr JUndefined \<and> \<not> isArray JUndefined"
    by simp
  have t0: "count_list (trace new_MCPClientManager) Connect = 0"
    by (simp add: new_MCPClientManager_def)
  show ?thesis
    using m nr off on missing t0
      lazy_reconnect [of hello_request ?ms new_MCPClientManager ?off JUndefined]
      lazy_reconnect [of hello_request ?ms new_MCPClientManager ?on JUndefined]
      lazy_reconnect [of "JObj []" ?ms new_MCPClientManager ?off JUndefined]
    by simp
qed

text \<open>
  With a tool endpoint that would accept a connection, the Anthropic-variant handler
  answers a well-formed request 503 without any reconnect attempt, and the OpenAI-variant
  handler answers a request without \<^verbatim>\<open>messages\<close> 400 without one.
\<close>

theorem lazy_reconnect_counterexample:
  "isReady new_MCPClientManager = False \<and>
   chat_anthropic (example_world anthropic_final_turn openai_final_turn) new_MCPClientManager
     hello_request =
     (error_reply 503 ''MCP client not connected'', new_MCPClientManager) \<and>
   chat_openai (example_world anthropic_final_turn openai_final_turn) new_MCPClientManager
     (JObj []) =
     (error_reply 400 ''Messages array is required'', new_MCPClientManager) \<and>
   trace new_MCPClientManager = [] \<and>
   fst (initialize (example_world anthropic_final_turn openai_final_turn) new_MCPClientManager) = True"
  by (simp add: chat_anthropic_def chat_anthropic_try_def chat_openai_def chat_openai_try_def
        hello_request_def isReady_def new_MCPClientManager_def initialize_run example_world_def)

section \<open>The final answer\<close>

text \<open>
  \<^verbatim>\<open>POST /api/chat\<close>, both variants: when the provider's turn is a final answer (the
  Anthropic \<^verbatim>\<open>stop_reason\<close> is not \<^verbatim>\<open>tool_use\<close>; the OpenAI message has no or
  an empty \<^verbatim>\<open>tool_calls\<close>), the handler answers 200 with exactly the fields
  \<^verbatim>\<open>response\<close> and \<^verbatim>\<open>needsToolResponse\<close>: the latter is \<^verbatim>\<open>false\<close>, and
  there is no \<^verbatim>\<open>toolResults\<close> field.
\<close>

theorem final_answer_reply:
  "(get_prop req_body ''messages'' = Inr (JArr ms) \<and> isReady s \<and>
    map_throwing clean_message ms = Inr cleaned \<and>
    anthropic_create w (trace s) cleaned (map claude_tool (getTools s)) = Inr response \<and>
    stop_reason response \<noteq> ''tool_use'' \<longrightarrow>
      fst (chat_anthropic w s req_body) =
        \<lparr>status = 200,
         body = [(''response'', AnthropicResponse response),
                 (''needsToolResponse'', Json (JBool False))]\<rparr> \<and>
      map_of (body (fst (chat_anthropic w s req_body))) ''needsToolResponse'' =
        Some (Json (JBool False)) \<and>
      map_of (body (fst (chat_anthropic w s req_body))) ''toolResults'' = None) \<and>
   (get_prop req_body ''messages'' = Inr (JArr ms) \<and> ensure_ready w s = (True, s1) \<and>
    map_throwing clean_message ms = Inr cleaned \<and>
    openai_create w (trace s1) cleaned (map openai_tool (getTools s1)) = Inr (msg # choices) \<and>
    \<not> has_tool_calls msg \<longrightarrow>
      fst (chat_openai w s req_body) =
        \<lparr>status = 200,
         body = [(''response'', OpenAIResponse msg),
                 (''needsToolResponse'', Json (JBool False))]\<rparr> \<and>
      map_of (body (fst (chat_openai w s req_body))) ''needsToolResponse'' =
        Some (Json (JBool False)) \<and>
      map_of (body (fst (chat_openai w s req_body))) ''toolResults'' = None)"
  by (simp add: chat_anthropic_def chat_anthropic_try_def chat_openai_def chat_openai_try_def
        chat_openai_ready_def first_choice_message_def Let_def)

theorem final_answer_reply_witness:
  "fst (chat_anthropic (example_world anthropic_final_turn openai_final_turn) ready_client
          hello_request) =
     \<lparr>status = 200,
      body = [(''response'', AnthropicResponse anthropic_final_turn),
              (''needsToolResponse'', Json (JBool False))]\<rparr> \<and>
   map_of (body (fst (chat_anthropic (example_world anthropic_final_turn openai_final_turn)
          ready_client hello_request))) ''toolResults'' = None \<and>
   fst (chat_openai (example_world anthropic_final_turn openai_final_turn) ready_client
          hello_request) =
     \<lparr>status = 200,
      body = [(''response'', OpenAIResponse openai_final_turn),
              (''needsToolResponse'', Json (JBool False))]\<rparr> \<and>
   map_of (body (fst (chat_openai (example_world anthropic_final_turn openai_final_turn)
          ready_client hello_request))) ''toolResults'' = None"
proof -
  let ?w = "example_world anthropic_final_turn openai_final_turn"
  let ?ms = "[JObj [(''role'', JStr ''user''), (''content'', JStr ''hi''),
                    (''isToolCall'', JBool False)]]"
  let ?cleaned = "[JObj [(''role'', JStr ''user''), (''content'', JStr ''hi'')]]"
  have m: "get_prop hello_request ''messages'' = Inr (JArr ?ms)"
    by (simp add: hello_request_def)
  have r: "isReady ready_client" "ensure_ready ?w ready_client = (True, ready_client)"
    by (simp_all add: ensure_ready_def isReady_def ready_client_def)
  have c: "map_throwing clean_message ?ms = Inr ?cleaned"
    by (simp add: clean_message_def)
  have a: "anthropic_create ?w (trace ready_client) ?cleaned (map claude_tool (getTools ready_client)) =
      Inr anthropic_final_turn"
    "stop_reason anthropic_final_turn \<noteq> ''tool_use''"
    by (simp_all add: example_world_def anthropic_final_turn_def)
  have b: "openai_create ?w (trace ready_client) ?cleaned (map openai_tool (getTools ready_client)) =
      Inr (openai_final_turn # [])"
    "\<not> has_tool_calls openai_final_turn"
    by (simp_all add: example_world_def openai_final_turn_def has_tool_calls_def)
  show ?thesis
    using m r c a b
      final_answer_reply [of hello_request ?ms ready_client ?cleaned ?w anthropic_final_turn
        ready_client openai_final_turn "[]"]
    by simp
qed

text \<open>
  \<^verbatim>\<open>POST /api/chat/continue\<close>: what the handlers answer once the provider has
  answered.  The Anthropic variant compares \<^verbatim>\<open>stop_reason\<close> with
  \<^verbatim>\<open>tool_use\<close>, a boolean.  The OpenAI variant answers the value of
  \<^verbatim>\<open>message.tool_calls && message.tool_calls.length > 0\<close>, which is
  \<^verbatim>\<open>undefined\<close> when the message has no \<^verbatim>\<open>tool_calls\<close>; \<^verbatim>\<open>res.json\<close> then
  leaves the field out.
\<close>

lemma continue_anthropic_reply:
  assumes "anthropic_updatedMessages w req_body = Inr updated"
    and "anthropic_create w (trace s) updated (map claude_tool (getTools s)) = Inr response"
  shows "fst (continue_anthropic w s req_body) =
    \<lparr>status = 200,
     body = [(''response'', AnthropicResponse response),
             (''needsToolResponse'', Json (JBool (stop_reason response = ''tool_use'')))]\<rparr>"
  using assms by (simp add: continue_anthropic_def continue_anthropic_try_def Let_def)

lemma continue_openai_reply:
  assumes "ensure_ready w s = (True, s1)"
    and "openai_updatedMessages w req_body = Inr updated"
    and "openai_create w (trace s1) updated (map openai_tool (getTools s1)) = Inr (msg # choices)"
  shows "fst (continue_openai w s req_body) =
    \<lparr>status = 200,
     body = [(''response'', OpenAIResponse msg),
             (''needsToolResponse'',
              Json (case tool_calls msg of None \<Rightarrow> JUndefined | Some cs \<Rightarrow> JBool (length cs > 0)))]\<rparr>"
  using assms
  by (simp add: continue_openai_def continue_openai_try_def first_choice_message_def Let_def)

text \<open>
  C6 on the OpenAI-variant continuation handler: the provider answers the continued
  conversation with a final answer, a message without \<^verbatim>\<open>tool_calls\<close>.  The reply has
  no \<^verbatim>\<open>toolResults\<close>, but its \<^verbatim>\<open>needsToolResponse\<close> is \<^verbatim>\<open>undefined\<close>, not
  \<^verbatim>\<open>false\<close>; the Anthropic-variant handler answers \<^verbatim>\<open>false\<close> to the same request.
\<close>

theorem continue_final_answer_undefined:
  "fst (continue_openai (example_world anthropic_final_turn openai_final_turn) ready_client
          continue_request) =
     \<lparr>status = 200,
      body = [(''response'', OpenAIResponse openai_final_turn),
              (''needsToolResponse'', Json JUndefined)]\<rparr> \<and>
   tool_calls openai_final_turn = None \<and>
   fst (continue_anthropic (example_world anthropic_final_turn openai_final_turn) ready_client
          continue_request) =
     \<lparr>status = 200,
      body = [(''response'', AnthropicResponse anthropic_final_turn),
              (''needsToolResponse'', Json (JBool False))]\<rparr>"
proof -
  let ?w = "example_world anthropic_final_turn openai_final_turn"
  have o: "fst (continue_openai ?w ready_client continue_request) =
     \<lparr>status = 200,
      body = [(''response'', OpenAIResponse openai_final_turn),
              (''needsToolResponse'', Json JUndefined)]\<rparr>"
    by (simp add: continue_openai_def continue_openai_try_def ensure_ready_def isReady_def
          openai_updatedMessages_def openai_tool_result_def tool_result_text_def
          template_text_def clean_message_def continue_request_def first_choice_message_def
          getTools_def ready_client_def example_world_def openai_final_turn_def)
  have a: "fst (continue_anthropic ?w ready_client continue_request) =
     \<lparr>status = 200,
      body = [(''response'', AnthropicResponse anthropic_final_turn),
              (''needsToolResponse'', Json (JBool False))]\<rparr>"
    by (simp add: continue_anthropic_def continue_anthropic_try_def
          anthropic_updatedMessages_def anthropic_tool_result_def tool_result_text_def
          template_text_def clean_message_def continue_request_def getTools_def
          ready_client_def example_world_def anthropic_final_turn_def)
  show ?thesis using o a by (simp add: openai_final_turn_def)
qed

section \<open>The tool loops\<close>

lemma callTool_connected:
  "isConnected s \<Longrightarrow>
   callTool w s toolName args =
     (sdk_callTool w (trace s) toolName args, s\<lparr>trace := trace s @ [RemoteCallTool toolName args]\<rparr>)"
  by (simp add: callTool_def)

text \<open>
  One round of either loop, for a connected client: whatever the tool endpoint answers, the
  call leaves an entry (with \<^verbatim>\<open>result\<close> when it succeeded, with \<^verbatim>\<open>error\<close> when it
  threw) and the loop goes on with the remaining requests.
\<close>

lemma anthropic_tool_loop_round:
  assumes "isConnected s" and "block_type b = ''tool_use''"
  shows "anthropic_tool_loop w s (b # blocks) acc =
    anthropic_tool_loop w (s\<lparr>trace := trace s @ [block_call b]\<rparr>) blocks
      (acc @
       [JObj [(''tool_use_id'', JStr (block_id b)), (''name'', JStr (block_name b)),
              (''input'', block_input b),
              (case sdk_callTool w (trace s) (block_name b) (block_input b) of
                 Inl error \<Rightarrow> (''error'', JStr (message error))
               | Inr result \<Rightarrow> (''result'', result))]])"
  using assms callTool_connected [OF assms(1), of w "block_name b" "block_input b"]
  by (cases "sdk_callTool w (trace s) (block_name b) (block_input b)")
     (simp_all add: block_call_def)

lemma openai_tool_loop_round:
  assumes "isConnected s" and "JSON_parse w (function_arguments c) = Inr args"
  shows "openai_tool_loop w s (c # cs) acc =
    openai_tool_loop w (s\<lparr>trace := trace s @ [RemoteCallTool (function_name c) args]\<rparr>) cs
      (acc @
       [JObj [(''tool_call_id'', JStr (call_id c)), (''name'', JStr (function_name c)),
              (''arguments'', args),
              (case sdk_callTool w (trace s) (function_name c) args of
                 Inl error \<Rightarrow> (''error'', JStr (message error))
               | Inr result \<Rightarrow> (''result'', result))]])"
  using assms callTool_connected [OF assms(1), of w "function_name c" args]
  by (cases "sdk_callTool w (trace s) (function_name c) args")
     (simp_all add: openai_tool_try_def)

lemma anthropic_tool_loop_run:
  "isConnected s \<Longrightarrow> anthropic_tool_loop w s blocks acc = (r, s') \<Longrightarrow>
   s' = s\<lparr>trace := trace s @ map block_call (filter (\<lambda>b. block_type b = ''tool_use'') blocks)\<rparr> \<and>
   (\<exists>entries. r = acc @ entries \<and>
      map (\<lambda>e. field_of e ''tool_use_id'') entries =
      map (\<lambda>b. JStr (block_id b)) (filter (\<lambda>b. block_type b = ''tool_use'') blocks))"
proof (induction blocks arbitrary: s acc)
  case Nil
  then show ?case by simp
next
  case (Cons b blocks)
  show ?case
  proof (cases "block_type b = ''tool_use''")
    case False
    with Cons.prems have "anthropic_tool_loop w s blocks acc = (r, s')" by simp
    from Cons.IH [OF Cons.prems(1) this] False show ?thesis by simp
  next
    case True
    let ?s1 = "s\<lparr>trace := trace s @ [block_call b]\<rparr>"
    have c: "callTool w s (block_name b) (block_input b) =
        (sdk_callTool w (trace s) (block_name b) (block_input b), ?s1)"
      using callTool_connected [OF Cons.prems(1)] by (simp add: block_call_def)
    have con: "isConnected ?s1" using Cons.prems(1) by simp
    from Cons.prems(2) True c obtain entry where
      rest: "anthropic_tool_loop w ?s1 blocks (acc @ [entry]) = (r, s')" and
      id: "field_of entry ''tool_use_id'' = JStr (block_id b)"
      by (cases "sdk_callTool w (trace s) (block_name b) (block_input b)")
         (simp_all add: field_of_def)
    from Cons.IH [OF con rest] obtain entries where
      s': "s' = ?s1\<lparr>trace := trace ?s1 @
             map block_call (filter (\<lambda>b. block_type b = ''tool_use'') blocks)\<rparr>" and
      r: "r = (acc @ [entry]) @ entries" and
      ids: "map (\<lambda>e. field_of e ''tool_use_id'') entries =
            map (\<lambda>b. JStr (block_id b)) (filter (\<lambda>b. block_type b = ''tool_use'') blocks)"
      by blast
    have "r = acc @ (entry # entries)" using r by simp
    moreover have "map (\<lambda>e. field_of e ''tool_use_id'') (entry # entries) =
        map (\<lambda>b. JStr (block_id b)) (filter (\<lambda>b. block_type b = ''tool_use'') (b # blocks))"
      using id ids True by simp
    moreover have "s' = s\<lparr>trace := trace s @
        map block_call (filter (\<lambda>b. block_type b = ''tool_use'') (b # blocks))\<rparr>"
      using s' True by simp
    ultimately show ?thesis by blast
  qed
qed

lemma openai_tool_try_parsed:
  assumes "isConnected s" and "JSON_parse w (function_arguments c) = Inr args"
  shows "\<exists>r. openai_tool_try w s c = (r, s\<lparr>trace := trace s @ [tool_call_event w c]\<rparr>) \<and>
     (case r of
        Inl error \<Rightarrow> True
      | Inr entry \<Rightarrow> field_of entry ''tool_call_id'' = JStr (call_id c))"
  using assms callTool_connected [OF assms(1), of w "function_name c" args]
  by (cases "sdk_callTool w (trace s) (function_name c) args")
     (simp_all add: openai_tool_try_def tool_call_event_def parsed_arguments_def field_of_def)

lemma openai_tool_loop_step:
  assumes "isConnected s" and "parses w c"
  shows "\<exists>entry. openai_tool_loop w s (c # cs) acc =
       openai_tool_loop w (s\<lparr>trace := trace s @ [tool_call_event w c]\<rparr>) cs (acc @ [entry]) \<and>
     field_of entry ''tool_call_id'' = JStr (call_id c)"
proof -
  from assms(2) obtain args where p: "JSON_parse w (function_arguments c) = Inr args"
    by (auto simp: parses_def split: sum.splits)
  from openai_tool_try_parsed [OF assms(1) p] obtain r where
    t: "openai_tool_try w s c = (r, s\<lparr>trace := trace s @ [tool_call_event w c]\<rparr>)" and
    id: "case r of Inl error \<Rightarrow> True
         | Inr entry \<Rightarrow> field_of entry ''tool_call_id'' = JStr (call_id c)"
    by blast
  show ?thesis
  proof (cases r)
    case (Inr entry)
    with t id show ?thesis by auto
  next
    case (Inl error)
    with t p show ?thesis by (auto simp: field_of_def)
  qed
qed

lemma openai_tool_loop_run:
  "isConnected s \<Longrightarrow> \<forall>c\<in>set cs. parses w c \<Longrightarrow>
   \<exists>entries. openai_tool_loop w s cs acc =
       (Inr (acc @ entries), s\<lparr>trace := trace s @ map (tool_call_event w) cs\<rparr>) \<and>
     map (\<lambda>e. field_of e ''tool_call_id'') entries = map (\<lambda>c. JStr (call_id c)) cs"
proof (induction cs arbitrary: s acc)
  case Nil
  then show ?case by simp
next
  case (Cons c cs)
  let ?s1 = "s\<lparr>trace := trace s @ [tool_call_event w c]\<rparr>"
  from Cons.prems have pc: "parses w c" and pcs: "\<forall>c\<in>set cs. parses w c" by simp_all
  from openai_tool_loop_step [OF Cons.prems(1) pc] obtain entry where
    step: "openai_tool_loop w s (c # cs) acc = openai_tool_loop w ?s1 cs (acc @ [entry])" and
    id: "field_of entry ''tool_call_id'' = JStr (call_id c)"
    by blast
  have con: "isConnected ?s1" using Cons.prems(1) by simp
  from Cons.IH [OF con pcs, of "acc @ [entry]"] obtain entries where
    run: "openai_tool_loop w ?s1 cs (acc @ [entry]) =
        (Inr ((acc @ [entry]) @ entries), ?s1\<lparr>trace := trace ?s1 @ map (tool_call_event w) cs\<rparr>)" and
    ids: "map (\<lambda>e. field_of e ''tool_call_id'') entries = map (\<lambda>c. JStr (call_id c)) cs"
    by blast
  have "openai_tool_loop w s (c # cs) acc =
      (Inr (acc @ (entry # entries)), s\<lparr>trace := trace s @ map (tool_call_event w) (c # cs)\<rparr>)"
    using step run by simp
  moreover have "map (\<lambda>e. field_of e ''tool_call_id'') (entry # entries) =
      map (\<lambda>c. JStr (call_id c)) (c # cs)"
    using id ids by simp
  ultimately show ?case by blast
qed

lemma openai_tool_loop_malformed:
  "isConnected s \<Longrightarrow> \<forall>c\<in>set pre. parses w c \<Longrightarrow>
   JSON_parse w (function_arguments bad) = Inl e \<Longrightarrow>
   openai_tool_loop w s (pre @ bad # post) acc =
     (Inl e, s\<lparr>trace := trace s @ map (tool_call_event w) pre\<rparr>)"
proof (induction pre arbitrary: s acc)
  case Nil
  then show ?case by (simp add: openai_tool_try_def)
next
  case (Cons c pre)
  let ?s1 = "s\<lparr>trace := trace s @ [tool_call_event w c]\<rparr>"
  from Cons.prems have pc: "parses w c" and ppre: "\<forall>c\<in>set pre. parses w c" by simp_all
  from openai_tool_loop_step [OF Cons.prems(1) pc, of "pre @ bad # post" acc] obtain entry where
    step: "openai_tool_loop w s (c # pre @ bad # post) acc =
           openai_tool_loop w ?s1 (pre @ bad # post) (acc @ [entry])"
    by blast
  have con: "isConnected ?s1" using Cons.prems(1) by simp
  from Cons.IH [OF con ppre Cons.prems(3), of "acc @ [entry]"] step
  show ?case by simp
qed

section \<open>Tool requests in the chat handlers\<close>

lemma ensure_ready_connected: "ensure_ready w s = (True, s1) \<Longrightarrow> isConnected s1"
  using initialize_isReady [of w s]
  by (auto simp: ensure_ready_def isReady_def split: if_splits)

lemma chat_anthropic_tool_use:
  assumes "get_prop req_body ''messages'' = Inr (JArr ms)" and "isReady s"
    and "map_throwing clean_message ms = Inr cleaned"
    and "anthropic_create w (trace s) cleaned (map claude_tool (getTools s)) = Inr response"
    and "stop_reason response = ''tool_use''"
  shows "\<exists>entries.
    chat_anthropic w s req_body =
      (\<lparr>status = 200,
        body = [(''response'', AnthropicResponse response),
                (''toolResults'', Json (JArr entries)),
                (''needsToolResponse'', Json (JBool True))]\<rparr>,
       s\<lparr>trace := trace s @ ModelCreate cleaned (map claude_tool (getTools s)) #
                   map block_call (tool_use_blocks response)\<rparr>) \<and>
    map (\<lambda>e. field_of e ''tool_use_id'') entries =
      map (\<lambda>b. JStr (block_id b)) (tool_use_blocks response)"
proof -
  let ?s1 = "s\<lparr>trace := trace s @ [ModelCreate cleaned (map claude_tool (getTools s))]\<rparr>"
  obtain r s2 where loop: "anthropic_tool_loop w ?s1 (content response) [] = (r, s2)"
    by (cases "anthropic_tool_loop w ?s1 (content response) []")
  have con: "isConnected ?s1" using assms(2) by (simp add: isReady_def)
  from anthropic_tool_loop_run [OF con loop]
  have s2: "s2 = ?s1\<lparr>trace := trace ?s1 @ map block_call (tool_use_blocks response)\<rparr>"
    and ids: "map (\<lambda>e. field_of e ''tool_use_id'') r =
              map (\<lambda>b. JStr (block_id b)) (tool_use_blocks response)"
    by (auto simp: tool_use_blocks_def)
  have "chat_anthropic w s req_body =
      (\<lparr>status = 200,
        body = [(''response'', AnthropicResponse response),
                (''toolResults'', Json (JArr r)),
                (''needsToolResponse'', Json (JBool True))]\<rparr>, s2)"
    using assms loop by (simp add: chat_anthropic_def chat_anthropic_try_def Let_def)
  with s2 ids show ?thesis by simp
qed

lemma chat_openai_reaches_loop:
  assumes "get_prop req_body ''messages'' = Inr (JArr ms)" and "ensure_ready w s = (True, s1)"
    and "map_throwing clean_message ms = Inr cleaned"
    and "openai_create w (trace s1) cleaned (map openai_tool (getTools s1)) = Inr (msg # choices)"
    and "has_tool_calls msg"
  shows "chat_openai w s req_body =
    (case openai_tool_loop w
            (s1\<lparr>trace := trace s1 @ [ModelCreate cleaned (map openai_tool (getTools s1))]\<rparr>)
            (requested_calls msg) [] of
       (Inl error, s2) \<Rightarrow> (error_reply 500 (message error), s2)
     | (Inr toolResults, s2) \<Rightarrow>
         (\<lparr>status = 200,
           body = [(''response'', OpenAIResponse msg),
                   (''toolResults'', Json (JArr toolResults)),
                   (''needsToolResponse'', Json (JBool True))]\<rparr>, s2))"
  using assms
  by (simp add: chat_openai_def chat_openai_try_def chat_openai_ready_def first_choice_message_def
        Let_def split: prod.splits sum.splits)

lemma chat_openai_tool_calls:
  assumes "get_prop req_body ''messages'' = Inr (JArr ms)" and "ensure_ready w s = (True, s1)"
    and "map_throwing clean_message ms = Inr cleaned"
    and "openai_create w (trace s1) cleaned (map openai_tool (getTools s1)) = Inr (msg # choices)"
    and "has_tool_calls msg"
    and "\<forall>c\<in>set (requested_calls msg). parses w c"
  shows "\<exists>entries.
    chat_openai w s req_body =
      (\<lparr>status = 200,
        body = [(''response'', OpenAIResponse msg),
                (''toolResults'', Json (JArr entries)),
                (''needsToolResponse'', Json (JBool True))]\<rparr>,
       s1\<lparr>trace := trace s1 @ ModelCreate cleaned (map openai_tool (getTools s1)) #
                    map (tool_call_event w) (requested_calls msg)\<rparr>) \<and>
    map (\<lambda>e. field_of e ''tool_call_id'') entries =
      map (\<lambda>c. JStr (call_id c)) (requested_calls msg)"
proof -
  let ?s2 = "s1\<lparr>trace := trace s1 @ [ModelCreate cleaned (map openai_tool (getTools s1))]\<rparr>"
  have con: "isConnected ?s2" using ensure_ready_connected [OF assms(2)] by simp
  from openai_tool_loop_run [OF con assms(6), of "[]"] obtain entries where
    run: "openai_tool_loop w ?s2 (requested_calls msg) [] =
        (Inr entries, ?s2\<lparr>trace := trace ?s2 @ map (tool_call_event w) (requested_calls msg)\<rparr>)"
    and ids: "map (\<lambda>e. field_of e ''tool_call_id'') entries =
        map (\<lambda>c. JStr (call_id c)) (requested_calls msg)"
    by auto
  show ?thesis
    using chat_openai_reaches_loop [OF assms(1-5)] run ids by simp
qed

lemma chat_openai_malformed:
  assumes "get_prop req_body ''messages'' = Inr (JArr ms)" and "ensure_ready w s = (True, s1)"
    and "map_throwing clean_message ms = Inr cleaned"
    and "openai_create w (trace s1) cleaned (map openai_tool (getTools s1)) = Inr (msg # choices)"
    and "tool_calls msg = Some (pre @ bad # post)"
    and "\<forall>c\<in>set pre. parses w c"
    and "JSON_parse w (function_arguments bad) = Inl e"
  shows "chat_openai w s req_body =
      (error_reply 500 (message e),
       s1\<lparr>trace := trace s1 @ ModelCreate cleaned (map openai_tool (getTools s1)) #
                    map (tool_call_event w) pre\<rparr>)"
proof -
  let ?s2 = "s1\<lparr>trace := trace s1 @ [ModelCreate cleaned (map openai_tool (getTools s1))]\<rparr>"
  have con: "isConnected ?s2" using ensure_ready_connected [OF assms(2)] by simp
  have calls: "has_tool_calls msg" "requested_calls msg = pre @ bad # post"
    using assms(5) by (simp_all add: has_tool_calls_def requested_calls_def)
  show ?thesis
    using chat_openai_reaches_loop [OF assms(1-4) calls(1)]
      openai_tool_loop_malformed [OF con assms(6,7), of post "[]"] calls(2)
    by simp
qed

lemma initialize_no_tool_call:
  "filter is_tool_call (trace (snd (initialize w s))) = filter is_tool_call (trace s)"
  using initialize_trace [of w s] by auto

lemma continue_anthropic_no_tools:
  "map_of (body (fst (continue_anthropic w s req_body))) ''toolResults'' = None \<and>
   filter is_tool_call (trace (snd (continue_anthropic w s req_body))) =
     filter is_tool_call (trace s)"
  by (simp add: continue_anthropic_def continue_anthropic_try_def error_reply_def Let_def
           split: sum.splits)

lemma continue_openai_no_tools:
  "map_of (body (fst (continue_openai w s req_body))) ''toolResults'' = None \<and>
   filter is_tool_call (trace (snd (continue_openai w s req_body))) =
     filter is_tool_call (trace s)"
proof (cases "isReady s")
  case True
  then show ?thesis
    by (simp add: continue_openai_def continue_openai_try_def ensure_ready_def error_reply_def
             Let_def split: sum.splits)
next
  case False
  obtain ok s1 where i: "initialize w s = (ok, s1)"
    by (cases "initialize w s")
  have "filter is_tool_call (trace s1) = filter is_tool_call (trace s)"
    using initialize_no_tool_call [of w s] i by simp
  with False i show ?thesis
    by (cases ok)
       (simp_all add: continue_openai_def continue_openai_try_def ensure_ready_def
          error_reply_def Let_def split: sum.splits)
qed

text \<open>
  C3, as amended.  A turn requests tool calls when its \<^verbatim>\<open>stop_reason\<close> is
  \<^verbatim>\<open>tool_use\<close> (Anthropic: the calls are its \<^verbatim>\<open>tool_use\<close> blocks) or its
  \<^verbatim>\<open>tool_calls\<close> is a non-empty list (OpenAI).  When the turn the provider returns
  to the chat entry point (\<^verbatim>\<open>POST /api/chat\<close>) requests tool calls and, in the
  OpenAI variant, every arguments string is valid JSON (the Anthropic SDK hands over
  structured input, so there is nothing to parse), the relay executes exactly the
  requested calls through the tool client, in the order emitted, right after the provider
  call, and answers 200 with a
  \<^verbatim>\<open>toolResults\<close> list that has one entry per request, the i-th carrying the
  identifier of the i-th request.  The continuation entry point
  (\<^verbatim>\<open>POST /api/chat/continue\<close>) executes no tool call and answers without a
  \<^verbatim>\<open>toolResults\<close> field, whatever the turn it receives requests.
\<close>

theorem tool_calls_in_order:
  "(get_prop req_body ''messages'' = Inr (JArr ms) \<and> isReady s \<and>
    map_throwing clean_message ms = Inr cleaned \<and>
    anthropic_create w (trace s) cleaned (map claude_tool (getTools s)) = Inr response \<and>
    stop_reason response = ''tool_use'' \<longrightarrow>
      (\<exists>entries.
         chat_anthropic w s req_body =
           (\<lparr>status = 200,
             body = [(''response'', AnthropicResponse response),
                     (''toolResults'', Json (JArr entries)),
                     (''needsToolResponse'', Json (JBool True))]\<rparr>,
            s\<lparr>trace := trace s @ ModelCreate cleaned (map claude_tool (getTools s)) #
                        map block_call (tool_use_blocks response)\<rparr>) \<and>
         map (\<lambda>e. field_of e ''tool_use_id'') entries =
           map (\<lambda>b. JStr (block_id b)) (tool_use_blocks response))) \<and>
   (get_prop req_body ''messages'' = Inr (JArr ms) \<and> ensure_ready w s = (True, s1) \<and>
    map_throwing clean_message ms = Inr cleaned \<and>
    openai_create w (trace s1) cleaned (map openai_tool (getTools s1)) = Inr (msg # choices) \<and>
    has_tool_calls msg \<and> (\<forall>c\<in>set (requested_calls msg). parses w c) \<longrightarrow>
      (\<exists>entries.
         chat_openai w s req_body =
           (\<lparr>status = 200,
             body = [(''response'', OpenAIResponse msg),
                     (''toolResults'', Json (JArr entries)),
                     (''needsToolResponse'', Json (JBool True))]\<rparr>,
            s1\<lparr>trace := trace s1 @ ModelCreate cleaned (map openai_tool (getTools s1)) #
                         map (tool_call_event w) (requested_calls msg)\<rparr>) \<and>
         map (\<lambda>e. field_of e ''tool_call_id'') entries =
           map (\<lambda>c. JStr (call_id c)) (requested_calls msg))) \<and>
   map_of (body (fst (continue_anthropic w s req_body))) ''toolResults'' = None \<and>
   filter is_tool_call (trace (snd (continue_anthropic w s req_body))) =
     filter is_tool_call (trace s) \<and>
   map_of (body (fst (continue_openai w s req_body))) ''toolResults'' = None \<and>
   filter is_tool_call (trace (snd (continue_openai w s req_body))) =
     filter is_tool_call (trace s)"
  using chat_anthropic_tool_use [of req_body ms s cleaned w response]
    chat_openai_tool_calls [of req_body ms w s s1 cleaned msg choices]
    continue_anthropic_no_tools [of w s req_body] continue_openai_no_tools [of w s req_body]
  by blast

theorem tool_calls_in_order_witness:
  "trace (snd (chat_anthropic (example_world anthropic_tool_turn openai_tool_turn) ready_client
      hello_request)) =
     [Connect, ListTools,
      ModelCreate [JObj [(''role'', JStr ''user''), (''content'', JStr ''hi'')]]
        [claude_tool search_tool],
      RemoteCallTool ''search'' (JObj [(''q'', JStr ''x'')]),
      RemoteCallTool ''lookup'' (JObj [])] \<and>
   map_of (body (fst (chat_anthropic (example_world anthropic_tool_turn openai_tool_turn)
      ready_client hello_request))) ''toolResults'' =
     Some (Json (JArr
       [JObj [(''tool_use_id'', JStr ''c1''), (''name'', JStr ''search''),
              (''input'', JObj [(''q'', JStr ''x'')]), (''result'', JObj [(''hits'', JArr [])])],
        JObj [(''tool_use_id'', JStr ''c2''), (''name'', JStr ''lookup''),
              (''input'', JObj []), (''error'', JStr ''Unknown tool'')]])) \<and>
   trace (snd (chat_openai (example_world anthropic_tool_turn openai_tool_turn) ready_client
      hello_request)) =
     [Connect, ListTools,
      ModelCreate [JObj [(''role'', JStr ''user''), (''content'', JStr ''hi'')]]
        [openai_tool search_tool],
      RemoteCallTool ''search'' (JObj [(''q'', JStr ''x'')]),
      RemoteCallTool ''lookup'' (JObj [])] \<and>
   map_of (body (fst (chat_openai (example_world anthropic_tool_turn openai_tool_turn)
      ready_client hello_request))) ''toolResults'' =
     Some (Json (JArr
       [JObj [(''tool_call_id'', JStr ''c1''), (''name'', JStr ''search''),
              (''arguments'', JObj [(''q'', JStr ''x'')]),
              (''result'', JObj [(''hits'', JArr [])])],
        JObj [(''tool_call_id'', JStr ''c2''), (''name'', JStr ''lookup''),
              (''arguments'', JObj []), (''error'', JStr ''Unknown tool'')]]))"
proof -
  let ?w = "example_world anthropic_tool_turn openai_tool_turn"
  let ?ms = "[JObj [(''role'', JStr ''user''), (''content'', JStr ''hi''),
                    (''isToolCall'', JBool False)]]"
  let ?cleaned = "[JObj [(''role'', JStr ''user''), (''content'', JStr ''hi'')]]"
  have m: "get_prop hello_request ''messages'' = Inr (JArr ?ms)"
    by (simp add: hello_request_def)
  have r: "isReady ready_client" "ensure_ready ?w ready_client = (True, ready_client)"
    by (simp_all add: ensure_ready_def isReady_def ready_client_def)
  have c: "map_throwing clean_message ?ms = Inr ?cleaned"
    by (simp add: clean_message_def)
  have a: "anthropic_create ?w (trace ready_client) ?cleaned (map claude_tool (getTools ready_client)) =
      Inr anthropic_tool_turn"
    "stop_reason anthropic_tool_turn = ''tool_use''"
    by (simp_all add: example_world_def anthropic_tool_turn_def)
  have b: "openai_create ?w (trace ready_client) ?cleaned (map openai_tool (getTools ready_client)) =
      Inr (openai_tool_turn # [])"
    "has_tool_calls openai_tool_turn"
    "\<forall>c\<in>set (requested_calls openai_tool_turn). parses ?w c"
    by (simp_all add: example_world_def openai_tool_turn_def has_tool_calls_def
          requested_calls_def parses_def)
  from tool_calls_in_order [of hello_request ?ms ready_client ?cleaned ?w anthropic_tool_turn
        ready_client openai_tool_turn "[]"] m r c a b
  have "trace (snd (chat_anthropic ?w ready_client hello_request)) =
      trace ready_client @ ModelCreate ?cleaned (map claude_tool (getTools ready_client)) #
        map block_call (tool_use_blocks anthropic_tool_turn) \<and>
    trace (snd (chat_openai ?w ready_client hello_request)) =
      trace ready_client @ ModelCreate ?cleaned (map openai_tool (getTools ready_client)) #
        map (tool_call_event ?w) (requested_calls openai_tool_turn)"
    by auto
  then have traces:
    "trace (snd (chat_anthropic ?w ready_client hello_request)) =
       [Connect, ListTools, ModelCreate ?cleaned [claude_tool search_tool],
        RemoteCallTool ''search'' (JObj [(''q'', JStr ''x'')]),
        RemoteCallTool ''lookup'' (JObj [])]"
    "trace (snd (chat_openai ?w ready_client hello_request)) =
       [Connect, ListTools, ModelCreate ?cleaned [openai_tool search_tool],
        RemoteCallTool ''search'' (JObj [(''q'', JStr ''x'')]),
        RemoteCallTool ''lookup'' (JObj [])]"
    by (simp_all add: ready_client_def getTools_def tool_use_blocks_def anthropic_tool_turn_def
          block_call_def requested_calls_def openai_tool_turn_def tool_call_event_def
          parsed_arguments_def example_world_def)
  have bodies:
    "map_of (body (fst (chat_anthropic ?w ready_client hello_request))) ''toolResults'' =
       Some (Json (JArr
         [JObj [(''tool_use_id'', JStr ''c1''), (''name'', JStr ''search''),
                (''input'', JObj [(''q'', JStr ''x'')]), (''result'', JObj [(''hits'', JArr [])])],
          JObj [(''tool_use_id'', JStr ''c2''), (''name'', JStr ''lookup''),
                (''input'', JObj []), (''error'', JStr ''Unknown tool'')]]))"
    "map_of (body (fst (chat_openai ?w ready_client hello_request))) ''toolResults'' =
       Some (Json (JArr
         [JObj [(''tool_call_id'', JStr ''c1''), (''name'', JStr ''search''),
                (''arguments'', JObj [(''q'', JStr ''x'')]),
                (''result'', JObj [(''hits'', JArr [])])],
          JObj [(''tool_call_id'', JStr ''c2''), (''name'', JStr ''lookup''),
                (''arguments'', JObj []), (''error'', JStr ''Unknown tool'')]]))"
    by (simp_all add: chat_anthropic_def chat_anthropic_try_def chat_openai_def
          chat_openai_try_def chat_openai_ready_def ensure_ready_def first_choice_message_def
          has_tool_calls_def requested_calls_def openai_tool_try_def callTool_def
          hello_request_def clean_message_def isReady_def getTools_def ready_client_def
          example_world_def anthropic_tool_turn_def openai_tool_turn_def)
  show ?thesis using traces bodies by simp
qed

text \<open>
  The OpenAI-variant chat handler, given a turn that requests three calls of which the
  second has a truncated arguments string, executes one call and answers 500 without any
  \<^verbatim>\<open>toolResults\<close>.  The OpenAI-variant continuation handler, given a turn that
  requests two well-formed calls, executes none and answers without \<^verbatim>\<open>toolResults\<close>.
\<close>

theorem tool_calls_in_order_counterexample:
  "length (requested_calls openai_malformed_turn) = 3 \<and>
   chat_openai (example_world anthropic_tool_turn openai_malformed_turn) ready_client
     hello_request =
     (error_reply 500 ''Unexpected end of JSON input'',
      ready_client\<lparr>trace :=
        [Connect, ListTools,
         ModelCreate [JObj [(''role'', JStr ''user''), (''content'', JStr ''hi'')]]
           [openai_tool search_tool],
         RemoteCallTool ''search'' (JObj [(''q'', JStr ''x'')])]\<rparr>) \<and>
   length (requested_calls openai_tool_turn) = 2 \<and>
   fst (continue_openai (example_world anthropic_tool_turn openai_tool_turn) ready_client
          continue_request) =
     \<lparr>status = 200,
      body = [(''response'', OpenAIResponse openai_tool_turn),
              (''needsToolResponse'', Json (JBool True))]\<rparr> \<and>
   filter is_tool_call
     (trace (snd (continue_openai (example_world anthropic_tool_turn openai_tool_turn)
        ready_client continue_request))) = []"
proof -
  let ?w = "example_world anthropic_tool_turn openai_tool_turn"
  have chat: "chat_openai (example_world anthropic_tool_turn openai_malformed_turn) ready_client
     hello_request =
     (error_reply 500 ''Unexpected end of JSON input'',
      ready_client\<lparr>trace :=
        [Connect, ListTools,
         ModelCreate [JObj [(''role'', JStr ''user''), (''content'', JStr ''hi'')]]
           [openai_tool search_tool],
         RemoteCallTool ''search'' (JObj [(''q'', JStr ''x'')])]\<rparr>)"
    by (simp add: chat_openai_def chat_openai_try_def chat_openai_ready_def ensure_ready_def
          first_choice_message_def has_tool_calls_def requested_calls_def openai_tool_try_def
          callTool_def hello_request_def clean_message_def isReady_def getTools_def
          ready_client_def example_world_def openai_malformed_turn_def)
  have n: "length (requested_calls openai_malformed_turn) = 3"
    "length (requested_calls openai_tool_turn) = 2"
    by (simp_all add: requested_calls_def openai_malformed_turn_def openai_tool_turn_def)
  have run: "continue_openai ?w ready_client continue_request =
     (\<lparr>status = 200,
       body = [(''response'', OpenAIResponse openai_tool_turn),
               (''needsToolResponse'', Json (JBool True))]\<rparr>,
      ready_client\<lparr>trace := trace ready_client @
        [ModelCreate
          (case openai_updatedMessages ?w continue_request of Inl e \<Rightarrow> [] | Inr ms \<Rightarrow> ms)
          [openai_tool search_tool]]\<rparr>)"
    by (simp add: continue_openai_def continue_openai_try_def ensure_ready_def isReady_def
          openai_updatedMessages_def openai_tool_result_def tool_result_text_def
          template_text_def clean_message_def continue_request_def first_choice_message_def
          getTools_def ready_client_def example_world_def openai_tool_turn_def)
  have "filter is_tool_call (trace (snd (continue_openai ?w ready_client continue_request))) = []"
    unfolding run by (simp add: ready_client_def)
  with chat n run show ?thesis by simp
qed

text \<open>
  C9.  In the OpenAI-variant chat handler, let the provider's turn request the calls
  \<open>pre @ bad # post\<close>, where the arguments of \<open>pre\<close> are valid JSON and
  \<^verbatim>\<open>JSON.parse\<close> throws \<open>e\<close> on those of \<open>bad\<close>.  The \<^verbatim>\<open>catch\<close> of that
  call parses the same string again, so the exception leaves the loop: the answer is the
  bare 500 with the message of \<open>e\<close> (no entry for \<open>bad\<close>, no \<^verbatim>\<open>toolResults\<close> at
  all), and the only tool executions are those of \<open>pre\<close>: neither \<open>bad\<close> nor any call
  of \<open>post\<close> is attempted.
\<close>

theorem malformed_arguments_abort:
  "get_prop req_body ''messages'' = Inr (JArr ms) \<and> ensure_ready w s = (True, s1) \<and>
   map_throwing clean_message ms = Inr cleaned \<and>
   openai_create w (trace s1) cleaned (map openai_tool (getTools s1)) = Inr (msg # choices) \<and>
   tool_calls msg = Some (pre @ bad # post) \<and> (\<forall>c\<in>set pre. parses w c) \<and>
   JSON_parse w (function_arguments bad) = Inl e \<longrightarrow>
     chat_openai w s req_body =
       (error_reply 500 (message e),
        s1\<lparr>trace := trace s1 @ ModelCreate cleaned (map openai_tool (getTools s1)) #
                     map (tool_call_event w) pre\<rparr>) \<and>
     map_of (body (fst (chat_openai w s req_body))) ''toolResults'' = None"
  using chat_openai_malformed [of req_body ms w s s1 cleaned msg choices pre bad post e]
  by (auto simp: error_reply_def)

theorem malformed_arguments_abort_witness:
  "chat_openai (example_world anthropic_tool_turn openai_malformed_turn) new_MCPClientManager
     hello_request =
     (error_reply 500 ''Unexpected end of JSON input'',
      \<lparr>client = True, isConnected = True, tools = [search_tool],
       trace =
        [Connect, ListTools,
         ModelCreate [JObj [(''role'', JStr ''user''), (''content'', JStr ''hi'')]]
           [openai_tool search_tool],
         RemoteCallTool ''search'' (JObj [(''q'', JStr ''x'')])]\<rparr>)"
proof -
  let ?w = "example_world anthropic_tool_turn openai_malformed_turn"
  let ?ms = "[JObj [(''role'', JStr ''user''), (''content'', JStr ''hi''),
                    (''isToolCall'', JBool False)]]"
  let ?cleaned = "[JObj [(''role'', JStr ''user''), (''content'', JStr ''hi'')]]"
  let ?s1 = "\<lparr>client = True, isConnected = True, tools = [search_tool],
              trace = [Connect, ListTools]\<rparr>"
  let ?c1 = "\<lparr>call_id = ''c1'', function_name = ''search'',
              function_arguments = [CHR ''{'', CHR 0x22, CHR ''q'', CHR 0x22, CHR '':'',
                                    CHR 0x22, CHR ''x'', CHR 0x22, CHR ''}'']\<rparr>"
  let ?c2 = "\<lparr>call_id = ''c2'', function_name = ''search'',
              function_arguments = [CHR ''{'', CHR 0x22, CHR ''q'', CHR 0x22, CHR '':'']\<rparr>"
  let ?c3 = "\<lparr>call_id = ''c3'', function_name = ''search'', function_arguments = ''{}''\<rparr>"
  have m: "get_prop hello_request ''messages'' = Inr (JArr ?ms)"
    by (simp add: hello_request_def)
  have r: "ensure_ready ?w new_MCPClientManager = (True, ?s1)"
    by (simp add: ensure_ready_def isReady_def initialize_run new_MCPClientManager_def
          example_world_def)
  have c: "map_throwing clean_message ?ms = Inr ?cleaned"
    by (simp add: clean_message_def)
  have b: "openai_create ?w (trace ?s1) ?cleaned (map openai_tool (getTools ?s1)) =
      Inr (openai_malformed_turn # [])"
    by (simp add: example_world_def)
  have calls: "tool_calls openai_malformed_turn = Some ([?c1] @ ?c2 # [?c3])"
    by (simp add: openai_malformed_turn_def)
  have p: "\<forall>c\<in>set [?c1]. parses ?w c"
    by (simp add: parses_def example_world_def)
  have bad: "JSON_parse ?w (function_arguments ?c2) = Inl (JsError ''Unexpected end of JSON input'')"
    by (simp add: example_world_def)
  from malformed_arguments_abort [of hello_request ?ms ?w new_MCPClientManager ?s1 ?cleaned
      openai_malformed_turn "[]" "[?c1]" ?c2 "[?c3]" "JsError ''Unexpected end of JSON input''"]
    m r c b calls p bad
  have "chat_openai ?w new_MCPClientManager hello_request =
      (error_reply 500 (message (JsError ''Unexpected end of JSON input'')),
       ?s1\<lparr>trace := trace ?s1 @ ModelCreate ?cleaned (map openai_tool (getTools ?s1)) #
                     map (tool_call_event ?w) [?c1]\<rparr>)"
    by blast
  then show ?thesis
    by (simp add: getTools_def tool_call_event_def parsed_arguments_def example_world_def)
qed

text \<open>
  C2 on the OpenAI-variant handler: the provider's turn requests two calls, the first with
  a truncated arguments string, the second well-formed.  The answer is 500, no entry is
  recorded for the first call, and the second call is never executed: after the provider
  call the trace has no tool call.
\<close>

theorem failed_call_aborts_turn:
  "chat_openai (example_world anthropic_tool_turn openai_truncated_turn) ready_client
     hello_request =
     (error_reply 500 ''Unexpected end of JSON input'',
      ready_client\<lparr>trace :=
        [Connect, ListTools,
         ModelCreate [JObj [(''role'', JStr ''user''), (''content'', JStr ''hi'')]]
           [openai_tool search_tool]]\<rparr>)"
  by (simp add: chat_openai_def chat_openai_try_def chat_openai_ready_def ensure_ready_def
        first_choice_message_def has_tool_calls_def requested_calls_def openai_tool_try_def
        callTool_def hello_request_def clean_message_def isReady_def getTools_def
        ready_client_def example_world_def openai_truncated_turn_def)

section \<open>The continuation handlers\<close>

lemma map_throwing_all:
  "(\<And>x. x \<in> set xs \<Longrightarrow> f x = Inr (g x)) \<Longrightarrow> map_throwing f xs = Inr (map g xs)"
  by (induction xs) simp_all

lemma get_prop_field: "\<not> nullish v \<Longrightarrow> get_prop v k = Inr (field_of v k)"
  by (cases v) (simp_all add: field_of_def)

lemma clean_message_object:
  "\<not> nullish msg \<Longrightarrow>
   clean_message msg =
     Inr (JObj [(''role'', field_of msg ''role''), (''content'', field_of msg ''content'')])"
  by (simp add: clean_message_def get_prop_field)

lemma template_text_text: "template_text w (JStr t) = Inr t"
  by (simp add: template_text_def)

lemma tool_result_text_cases:
  "\<not> nullish tr \<Longrightarrow>
   tool_result_text w tr =
     (if truthy (field_of tr ''error'')
      then (case template_text w (field_of tr ''error'') of
              Inl e \<Rightarrow> Inl e
            | Inr t \<Rightarrow> Inr (JStr (''Error: '' @ t)))
      else Inr (JSON_stringify w (field_of tr ''result'')))"
  by (simp add: tool_result_text_def get_prop_field)

lemma tool_result_text_renders: "renders w tr \<Longrightarrow> tool_result_text w tr = Inr (rendered_text w tr)"
  by (auto simp: renders_def rendered_text_def split: sum.splits)

lemma anthropic_tool_result_object:
  "renders w tr \<Longrightarrow>
   anthropic_tool_result w tr =
     Inr (JObj [(''type'', JStr ''tool_result''), (''tool_use_id'', field_of tr ''tool_use_id''),
                (''content'', rendered_text w tr)])"
  using tool_result_text_renders [of w tr]
  by (simp add: anthropic_tool_result_def renders_def get_prop_field)

lemma openai_tool_result_object:
  "renders w tr \<Longrightarrow>
   openai_tool_result w tr =
     Inr (JObj [(''role'', JStr ''tool''), (''tool_call_id'', field_of tr ''tool_call_id''),
                (''content'', rendered_text w tr)])"
  using tool_result_text_renders [of w tr]
  by (simp add: openai_tool_result_def renders_def get_prop_field)

text \<open>An exception of the rendering is the exception of the \<^verbatim>\<open>map\<close> over the results.\<close>

lemma tool_results_throw:
  "\<forall>tr\<in>set trs. \<not> nullish tr \<Longrightarrow> map_throwing (tool_result_text w) trs = Inl e \<Longrightarrow>
   map_throwing (anthropic_tool_result w) trs = Inl e \<and>
   map_throwing (openai_tool_result w) trs = Inl e"
proof (induction trs)
  case Nil
  then show ?case by simp
next
  case (Cons tr trs)
  from Cons.prems(1) have n: "\<not> nullish tr" by simp
  show ?case
  proof (cases "tool_result_text w tr")
    case (Inl e')
    with Cons.prems(2) n show ?thesis
      by (simp add: anthropic_tool_result_def openai_tool_result_def get_prop_field)
  next
    case (Inr c)
    with Cons.prems obtain "\<forall>tr\<in>set trs. \<not> nullish tr"
      and "map_throwing (tool_result_text w) trs = Inl e"
      by (auto split: sum.splits)
    from Cons.IH [OF this] Inr n show ?thesis
      by (simp add: anthropic_tool_result_def openai_tool_result_def get_prop_field)
  qed
qed

lemma anthropic_updatedMessages_wellformed:
  assumes "get_prop req_body ''messages'' = Inr (JArr ms)"
    and "get_prop req_body ''toolResults'' = Inr (JArr trs)"
    and "get_prop req_body ''assistantResponse'' = Inr ar"
    and "\<forall>m\<in>set ms. \<not> nullish m" and "\<forall>tr\<in>set trs. renders w tr" and "\<not> nullish ar"
  shows "anthropic_updatedMessages w req_body =
    Inr (map (\<lambda>m. JObj [(''role'', field_of m ''role''), (''content'', field_of m ''content'')]) ms @
         [JObj [(''role'', JStr ''assistant''), (''content'', field_of ar ''content'')],
          JObj [(''role'', JStr ''user''),
                (''content'',
                 JArr (map (\<lambda>tr. JObj [(''type'', JStr ''tool_result''),
                                        (''tool_use_id'', field_of tr ''tool_use_id''),
                                        (''content'', rendered_text w tr)]) trs))]])"
proof -
  have c: "map_throwing clean_message ms =
      Inr (map (\<lambda>m. JObj [(''role'', field_of m ''role''), (''content'', field_of m ''content'')]) ms)"
    using assms(4) by (intro map_throwing_all) (simp add: clean_message_object)
  have t: "map_throwing (anthropic_tool_result w) trs =
      Inr (map (\<lambda>tr. JObj [(''type'', JStr ''tool_result''),
                            (''tool_use_id'', field_of tr ''tool_use_id''),
                            (''content'', rendered_text w tr)]) trs)"
    using assms(5) by (intro map_throwing_all) (simp add: anthropic_tool_result_object)
  show ?thesis
    using assms(1-3) c t get_prop_field [OF assms(6), of "''content''"]
    by (simp add: anthropic_updatedMessages_def)
qed

lemma openai_updatedMessages_wellformed:
  assumes "get_prop req_body ''messages'' = Inr (JArr ms)"
    and "get_prop req_body ''toolResults'' = Inr (JArr trs)"
    and "get_prop req_body ''assistantResponse'' = Inr ar"
    and "\<forall>m\<in>set ms. \<not> nullish m" and "\<forall>tr\<in>set trs. renders w tr"
  shows "openai_updatedMessages w req_body =
    Inr (map (\<lambda>m. JObj [(''role'', field_of m ''role''), (''content'', field_of m ''content'')]) ms @
         [ar] @
         map (\<lambda>tr. JObj [(''role'', JStr ''tool''),
                          (''tool_call_id'', field_of tr ''tool_call_id''),
                          (''content'', rendered_text w tr)]) trs)"
proof -
  have c: "map_throwing clean_message ms =
      Inr (map (\<lambda>m. JObj [(''role'', field_of m ''role''), (''content'', field_of m ''content'')]) ms)"
    using assms(4) by (intro map_throwing_all) (simp add: clean_message_object)
  have t: "map_throwing (openai_tool_result w) trs =
      Inr (map (\<lambda>tr. JObj [(''role'', JStr ''tool''),
                            (''tool_call_id'', field_of tr ''tool_call_id''),
                            (''content'', rendered_text w tr)]) trs)"
    using assms(5) by (intro map_throwing_all) (simp add: openai_tool_result_object)
  show ?thesis
    using assms(1-3) c t by (simp add: openai_updatedMessages_def)
qed

lemma updatedMessages_throw:
  assumes "get_prop req_body ''messages'' = Inr (JArr ms)"
    and "get_prop req_body ''toolResults'' = Inr (JArr trs)"
    and "get_prop req_body ''assistantResponse'' = Inr ar"
    and "\<forall>m\<in>set ms. \<not> nullish m" and "\<forall>tr\<in>set trs. \<not> nullish tr"
    and "map_throwing (tool_result_text w) trs = Inl e"
  shows "anthropic_updatedMessages w req_body = Inl e"
    and "openai_updatedMessages w req_body = Inl e"
proof -
  have c: "map_throwing clean_message ms =
      Inr (map (\<lambda>m. JObj [(''role'', field_of m ''role''), (''content'', field_of m ''content'')]) ms)"
    using assms(4) by (intro map_throwing_all) (simp add: clean_message_object)
  show "anthropic_updatedMessages w req_body = Inl e"
    and "openai_updatedMessages w req_body = Inl e"
    using assms(1-3) c tool_results_throw [OF assms(5,6)]
    by (simp_all add: anthropic_updatedMessages_def openai_updatedMessages_def)
qed

lemma continue_anthropic_trace:
  "anthropic_updatedMessages w req_body = Inr updated \<Longrightarrow>
   trace (snd (continue_anthropic w s req_body)) =
     trace s @ [ModelCreate updated (map claude_tool (getTools s))]"
  by (simp add: continue_anthropic_def continue_anthropic_try_def Let_def split: sum.splits)

lemma continue_openai_trace:
  "ensure_ready w s = (True, s1) \<Longrightarrow> openai_updatedMessages w req_body = Inr updated \<Longrightarrow>
   trace (snd (continue_openai w s req_body)) =
     trace s1 @ [ModelCreate updated (map openai_tool (getTools s1))]"
  by (simp add: continue_openai_def continue_openai_try_def Let_def split: sum.splits)

lemma continue_throw:
  "anthropic_updatedMessages w req_body = Inl e \<Longrightarrow>
   continue_anthropic w s req_body = (error_reply 500 (message e), s)"
  "ensure_ready w s = (True, s1) \<Longrightarrow> openai_updatedMessages w req_body = Inl e \<Longrightarrow>
   continue_openai w s req_body = (error_reply 500 (message e), s1)"
  by (simp_all add: continue_anthropic_def continue_anthropic_try_def continue_openai_def
        continue_openai_try_def)

lemma continue_openai_unavailable:
  assumes "ensure_ready w s = (False, s1)"
  shows "continue_openai w s req_body = (error_reply 503 ''MCP client failed to connect'', s1) \<and>
     (trace s1 = trace s @ [Connect] \<or> trace s1 = trace s @ [Connect, ListTools])"
proof -
  from assms have "s1 = snd (initialize w s)"
    by (auto simp: ensure_ready_def split: if_splits)
  with assms initialize_trace [of w s] show ?thesis
    by (simp add: continue_openai_def continue_openai_try_def)
qed

text \<open>
  C5, as amended.  Let the body of a continuation request hold a \<^verbatim>\<open>messages\<close> array
  without a \<^verbatim>\<open>null\<close> element, a \<^verbatim>\<open>toolResults\<close> array and an assistant response.
  When every tool result can be rendered, the conversation submitted to the provider is:
  the original messages in their order, each reduced to its \<^verbatim>\<open>role\<close> and
  \<^verbatim>\<open>content\<close>, both unchanged; the assistant's tool-request message; the tool results,
  each carrying its call identifier.  In the Anthropic variant (the assistant response must
  not be \<^verbatim>\<open>null\<close>) the results are the blocks of one user message; in the OpenAI
  variant, which submits when the tool client is ready or the lazy reconnect succeeds,
  each is a message of its own.  When no result is \<^verbatim>\<open>null\<close> and rendering one throws,
  the handler answers 500 with that error and submits nothing.  When the lazy reconnect of
  the OpenAI variant fails, the handler answers 503 and nothing but the connect attempt
  left the process.  The content of a result that is not \<^verbatim>\<open>null\<close> is \<^verbatim>\<open>Error: \<close>
  followed by the text of its \<^verbatim>\<open>error\<close> when that field is truthy (the conversion
  to text may throw; a text stands for itself), and \<^verbatim>\<open>JSON.stringify\<close> of its
  \<^verbatim>\<open>result\<close> field otherwise, also when \<^verbatim>\<open>error\<close> is present and empty.
\<close>

theorem continuation_conversation:
  "(get_prop req_body ''messages'' = Inr (JArr ms) \<and>
    get_prop req_body ''toolResults'' = Inr (JArr trs) \<and>
    get_prop req_body ''assistantResponse'' = Inr ar \<and>
    (\<forall>m\<in>set ms. \<not> nullish m) \<longrightarrow>
      ((\<forall>tr\<in>set trs. renders w tr) \<longrightarrow>
         (\<not> nullish ar \<longrightarrow>
            trace (snd (continue_anthropic w s req_body)) =
              trace s @
              [ModelCreate
                (map (\<lambda>m. JObj [(''role'', field_of m ''role''),
                                 (''content'', field_of m ''content'')]) ms @
                 [JObj [(''role'', JStr ''assistant''), (''content'', field_of ar ''content'')],
                  JObj [(''role'', JStr ''user''),
                        (''content'',
                         JArr (map (\<lambda>tr. JObj [(''type'', JStr ''tool_result''),
                                                (''tool_use_id'', field_of tr ''tool_use_id''),
                                                (''content'', rendered_text w tr)]) trs))]])
                (map claude_tool (getTools s))]) \<and>
         (ensure_ready w s = (True, s1) \<longrightarrow>
            trace (snd (continue_openai w s req_body)) =
              trace s1 @
              [ModelCreate
                (map (\<lambda>m. JObj [(''role'', field_of m ''role''),
                                 (''content'', field_of m ''content'')]) ms @
                 [ar] @
                 map (\<lambda>tr. JObj [(''role'', JStr ''tool''),
                                  (''tool_call_id'', field_of tr ''tool_call_id''),
                                  (''content'', rendered_text w tr)]) trs)
                (map openai_tool (getTools s1))])) \<and>
      ((\<forall>tr\<in>set trs. \<not> nullish tr) \<and> map_throwing (tool_result_text w) trs = Inl e \<longrightarrow>
         continue_anthropic w s req_body = (error_reply 500 (message e), s) \<and>
         (ensure_ready w s = (True, s1) \<longrightarrow>
            continue_openai w s req_body = (error_reply 500 (message e), s1)))) \<and>
   (ensure_ready w s = (False, s1) \<longrightarrow>
      continue_openai w s req_body = (error_reply 503 ''MCP client failed to connect'', s1) \<and>
      (trace s1 = trace s @ [Connect] \<or> trace s1 = trace s @ [Connect, ListTools])) \<and>
   (renders w tr \<longrightarrow> tool_result_text w tr = Inr (rendered_text w tr)) \<and>
   (\<not> nullish tr \<longrightarrow>
      tool_result_text w tr =
        (if truthy (field_of tr ''error'')
         then (case template_text w (field_of tr ''error'') of
                 Inl x \<Rightarrow> Inl x
               | Inr t \<Rightarrow> Inr (JStr (''Error: '' @ t)))
         else Inr (JSON_stringify w (field_of tr ''result'')))) \<and>
   template_text w (JStr t) = Inr t"
proof -
  have submit_a: "trace (snd (continue_anthropic w s req_body)) =
      trace s @
      [ModelCreate
        (map (\<lambda>m. JObj [(''role'', field_of m ''role''), (''content'', field_of m ''content'')]) ms @
         [JObj [(''role'', JStr ''assistant''), (''content'', field_of ar ''content'')],
          JObj [(''role'', JStr ''user''),
                (''content'',
                 JArr (map (\<lambda>tr. JObj [(''type'', JStr ''tool_result''),
                                        (''tool_use_id'', field_of tr ''tool_use_id''),
                                        (''content'', rendered_text w tr)]) trs))]])
        (map claude_tool (getTools s))]"
    if "get_prop req_body ''messages'' = Inr (JArr ms)"
      "get_prop req_body ''toolResults'' = Inr (JArr trs)"
      "get_prop req_body ''assistantResponse'' = Inr ar"
      "\<forall>m\<in>set ms. \<not> nullish m" "\<forall>tr\<in>set trs. renders w tr" "\<not> nullish ar"
    using continue_anthropic_trace [OF anthropic_updatedMessages_wellformed [OF that]] .
  have submit_o: "trace (snd (continue_openai w s req_body)) =
      trace s1 @
      [ModelCreate
        (map (\<lambda>m. JObj [(''role'', field_of m ''role''), (''content'', field_of m ''content'')]) ms @
         [ar] @
         map (\<lambda>tr. JObj [(''role'', JStr ''tool''),
                          (''tool_call_id'', field_of tr ''tool_call_id''),
                          (''content'', rendered_text w tr)]) trs)
        (map openai_tool (getTools s1))]"
    if "get_prop req_body ''messages'' = Inr (JArr ms)"
      "get_prop req_body ''toolResults'' = Inr (JArr trs)"
      "get_prop req_body ''assistantResponse'' = Inr ar"
      "\<forall>m\<in>set ms. \<not> nullish m" "\<forall>tr\<in>set trs. renders w tr"
      "ensure_ready w s = (True, s1)"
    using continue_openai_trace [OF that(6) openai_updatedMessages_wellformed [OF that(1-5)]] .
  have throw_a: "continue_anthropic w s req_body = (error_reply 500 (message e), s)"
    if "get_prop req_body ''messages'' = Inr (JArr ms)"
      "get_prop req_body ''toolResults'' = Inr (JArr trs)"
      "get_prop req_body ''assistantResponse'' = Inr ar"
      "\<forall>m\<in>set ms. \<not> nullish m" "\<forall>tr\<in>set trs. \<not> nullish tr"
      "map_throwing (tool_result_text w) trs = Inl e"
    using continue_throw(1) [OF updatedMessages_throw(1) [OF that]] .
  have throw_o: "continue_openai w s req_body = (error_reply 500 (message e), s1)"
    if "get_prop req_body ''messages'' = Inr (JArr ms)"
      "get_prop req_body ''toolResults'' = Inr (JArr trs)"
      "get_prop req_body ''assistantResponse'' = Inr ar"
      "\<forall>m\<in>set ms. \<not> nullish m" "\<forall>tr\<in>set trs. \<not> nullish tr"
      "map_throwing (tool_result_text w) trs = Inl e" "ensure_ready w s = (True, s1)"
    using continue_throw(2) [OF that(7) updatedMessages_throw(2) [OF that(1-6)]] .
  show ?thesis
    using submit_a submit_o throw_a throw_o
      continue_openai_unavailable [of w s s1 req_body]
      tool_result_text_renders [of w tr] tool_result_text_cases [of tr w]
      template_text_text [of w t]
    by blast
qed

theorem continuation_conversation_witness:
  \<open>trace (snd (continue_anthropic (example_world anthropic_final_turn openai_final_turn)
      ready_client continue_request)) =
     [Connect, ListTools,
      ModelCreate
        [JObj [(''role'', JStr ''user''), (''content'', JStr ''hi'')],
         JObj [(''role'', JStr ''assistant''), (''content'', JNull)],
         JObj [(''role'', JStr ''user''),
               (''content'',
                JArr [JObj [(''type'', JStr ''tool_result''), (''tool_use_id'', JStr ''c1''),
                            (''content'', JStr ''{"hits":[]}'')],
                      JObj [(''type'', JStr ''tool_result''), (''tool_use_id'', JStr ''c2''),
                            (''content'', JStr ''Error: Unknown tool'')]])]]
        [claude_tool search_tool]] \<and>
   trace (snd (continue_openai (example_world anthropic_final_turn openai_final_turn)
      ready_client continue_request)) =
     [Connect, ListTools,
      ModelCreate
        [JObj [(''role'', JStr ''user''), (''content'', JStr ''hi'')],
         JObj [(''role'', JStr ''assistant''), (''content'', JNull)],
         JObj [(''role'', JStr ''tool''), (''tool_call_id'', JStr ''c1''),
               (''content'', JStr ''{"hits":[]}'')],
         JObj [(''role'', JStr ''tool''), (''tool_call_id'', JStr ''c2''),
               (''content'', JStr ''Error: Unknown tool'')]]
        [openai_tool search_tool]] \<and>
   continue_openai (offline_world anthropic_final_turn openai_final_turn) new_MCPClientManager
     continue_request =
     (error_reply 503 ''MCP client failed to connect'',
      \<lparr>client = True, isConnected = False, tools = [], trace = [Connect]\<rparr>) \<and>
   continue_anthropic (example_world anthropic_final_turn openai_final_turn) ready_client
     unprintable_error_request =
     (error_reply 500 ''Cannot convert object to primitive value'', ready_client)\<close>
proof -
  let ?w = "example_world anthropic_final_turn openai_final_turn"
  let ?off = "offline_world anthropic_final_turn openai_final_turn"
  let ?ms = "[JObj [(''role'', JStr ''user''), (''content'', JStr ''hi''),
                    (''isToolCall'', JBool False)]]"
  let ?ms' = "[JObj [(''role'', JStr ''user''), (''content'', JStr ''hi'')]]"
  let ?tr1 = "JObj [(''tool_call_id'', JStr ''c1''), (''tool_use_id'', JStr ''c1''),
                    (''name'', JStr ''search''), (''result'', JObj [(''hits'', JArr [])])]"
  let ?tr2 = "JObj [(''tool_call_id'', JStr ''c2''), (''tool_use_id'', JStr ''c2''),
                    (''name'', JStr ''lookup''), (''error'', JStr ''Unknown tool'')]"
  let ?bad = "JObj [(''tool_call_id'', JStr ''c1''), (''tool_use_id'', JStr ''c1''),
                    (''name'', JStr ''search''), (''error'', JObj [(''toString'', JNull)])]"
  let ?ar = "JObj [(''role'', JStr ''assistant''), (''content'', JNull)]"
  let ?e = "JsError ''Cannot convert object to primitive value''"
  have b: "get_prop continue_request ''messages'' = Inr (JArr ?ms)"
    "get_prop continue_request ''toolResults'' = Inr (JArr [?tr1, ?tr2])"
    "get_prop continue_request ''assistantResponse'' = Inr ?ar"
    by (simp_all add: continue_request_def)
  have b': "get_prop unprintable_error_request ''messages'' = Inr (JArr ?ms')"
    "get_prop unprintable_error_request ''toolResults'' = Inr (JArr [?bad])"
    "get_prop unprintable_error_request ''assistantResponse'' = Inr ?ar"
    by (simp_all add: unprintable_error_request_def)
  have n: "\<forall>m\<in>set ?ms. \<not> nullish m" "\<forall>m\<in>set ?ms'. \<not> nullish m"
    "\<forall>tr\<in>set [?bad]. \<not> nullish tr" "\<not> nullish ?ar"
    by simp_all
  have t: \<open>tool_result_text ?w ?tr1 = Inr (JStr ''{"hits":[]}'')\<close>
    \<open>tool_result_text ?w ?tr2 = Inr (JStr ''Error: Unknown tool'')\<close>
    by (simp_all add: tool_result_text_def template_text_def example_world_def)
  then have r: "\<forall>tr\<in>set [?tr1, ?tr2]. renders ?w tr"
    by (simp add: renders_def)
  have rt: \<open>rendered_text ?w ?tr1 = JStr ''{"hits":[]}''\<close>
    \<open>rendered_text ?w ?tr2 = JStr ''Error: Unknown tool''\<close>
    using t by (simp_all add: rendered_text_def)
  have bad: "map_throwing (tool_result_text ?w) [?bad] = Inl ?e"
    by (simp add: tool_result_text_def template_text_def)
  have ready: "ensure_ready ?w ready_client = (True, ready_client)"
    by (simp add: ensure_ready_def isReady_def ready_client_def)
  have off: "ensure_ready ?off new_MCPClientManager =
      (False, \<lparr>client = True, isConnected = False, tools = [], trace = [Connect]\<rparr>)"
    by (simp add: ensure_ready_def isReady_def offline_initialize)
       (simp add: new_MCPClientManager_def)
  from continuation_conversation [of continue_request ?ms "[?tr1, ?tr2]" ?ar ?w ready_client
      ready_client] b n r ready
  have sub: "trace (snd (continue_anthropic ?w ready_client continue_request)) =
      trace ready_client @
      [ModelCreate
        (map (\<lambda>m. JObj [(''role'', field_of m ''role''), (''content'', field_of m ''content'')]) ?ms @
         [JObj [(''role'', JStr ''assistant''), (''content'', field_of ?ar ''content'')],
          JObj [(''role'', JStr ''user''),
                (''content'',
                 JArr (map (\<lambda>tr. JObj [(''type'', JStr ''tool_result''),
                                        (''tool_use_id'', field_of tr ''tool_use_id''),
                                        (''content'', rendered_text ?w tr)]) [?tr1, ?tr2]))]])
        (map claude_tool (getTools ready_client))] \<and>
    trace (snd (continue_openai ?w ready_client continue_request)) =
      trace ready_client @
      [ModelCreate
        (map (\<lambda>m. JObj [(''role'', field_of m ''role''), (''content'', field_of m ''content'')]) ?ms @
         [?ar] @
         map (\<lambda>tr. JObj [(''role'', JStr ''tool''),
                          (''tool_call_id'', field_of tr ''tool_call_id''),
                          (''content'', rendered_text ?w tr)]) [?tr1, ?tr2])
        (map openai_tool (getTools ready_client))]"
    by blast
  from continuation_conversation [of continue_request ?ms "[?tr1, ?tr2]" ?ar ?off
      new_MCPClientManager "\<lparr>client = True, isConnected = False, tools = [], trace = [Connect]\<rparr>"]
    off
  have unavailable: "continue_openai ?off new_MCPClientManager continue_request =
      (error_reply 503 ''MCP client failed to connect'',
       \<lparr>client = True, isConnected = False, tools = [], trace = [Connect]\<rparr>)"
    by blast
  from continuation_conversation [of unprintable_error_request ?ms' "[?bad]" ?ar ?w
      ready_client ready_client ?e] b' n bad
  have thrown: "continue_anthropic ?w ready_client unprintable_error_request =
      (error_reply 500 (message ?e), ready_client)"
    by blast
  show ?thesis
    using sub unavailable thrown rt by (simp add: field_of_def ready_client_def getTools_def)
qed

text \<open>
  A tool result whose \<^verbatim>\<open>error\<close> is the empty string is not rendered as
  \<^verbatim>\<open>Error: \<close>: its content is \<^verbatim>\<open>JSON.stringify\<close> of the missing \<^verbatim>\<open>result\<close>,
  that is \<^verbatim>\<open>undefined\<close>.  A tool result whose \<^verbatim>\<open>error\<close> is an object with a
  \<^verbatim>\<open>toString\<close> key is not rendered at all: the handler answers 500 and submits
  nothing.  And the OpenAI-variant handler, with the tool endpoint unreachable, submits
  nothing and answers 503.
\<close>

theorem continuation_counterexample:
  "get_prop empty_error_request ''toolResults'' =
     Inr (JArr [JObj [(''tool_call_id'', JStr ''c1''), (''tool_use_id'', JStr ''c1''),
                      (''name'', JStr ''search''), (''error'', JStr [])]]) \<and>
   trace (snd (continue_openai (example_world anthropic_final_turn openai_final_turn)
      ready_client empty_error_request)) =
     [Connect, ListTools,
      ModelCreate
        [JObj [(''role'', JStr ''user''), (''content'', JStr ''hi'')],
         JObj [(''role'', JStr ''assistant''), (''content'', JNull)],
         JObj [(''role'', JStr ''tool''), (''tool_call_id'', JStr ''c1''),
               (''content'', JUndefined)]]
        [openai_tool search_tool]] \<and>
   get_prop unprintable_error_request ''toolResults'' =
     Inr (JArr [JObj [(''tool_call_id'', JStr ''c1''), (''tool_use_id'', JStr ''c1''),
                      (''name'', JStr ''search''),
                      (''error'', JObj [(''toString'', JNull)])]]) \<and>
   continue_openai (example_world anthropic_final_turn openai_final_turn) ready_client
     unprintable_error_request =
     (error_reply 500 ''Cannot convert object to primitive value'', ready_client) \<and>
   continue_openai (offline_world anthropic_final_turn openai_final_turn) new_MCPClientManager
     continue_request =
     (error_reply 503 ''MCP client failed to connect'',
      \<lparr>client = True, isConnected = False, tools = [], trace = [Connect]\<rparr>)"
proof -
  have nr: "\<not> isReady new_MCPClientManager"
    by (simp add: isReady_def new_MCPClientManager_def)
  have off: "continue_openai (offline_world anthropic_final_turn openai_final_turn)
      new_MCPClientManager continue_request =
      (error_reply 503 ''MCP client failed to connect'',
       \<lparr>client = True, isConnected = False, tools = [], trace = [Connect]\<rparr>)"
    using nr
    by (simp add: continue_openai_def continue_openai_try_def ensure_ready_def
          offline_initialize)
  have on: "trace (snd (continue_openai (example_world anthropic_final_turn openai_final_turn)
      ready_client empty_error_request)) =
     [Connect, ListTools,
      ModelCreate
        [JObj [(''role'', JStr ''user''), (''content'', JStr ''hi'')],
         JObj [(''role'', JStr ''assistant''), (''content'', JNull)],
         JObj [(''role'', JStr ''tool''), (''tool_call_id'', JStr ''c1''),
               (''content'', JUndefined)]]
        [openai_tool search_tool]]"
    by (simp add: continue_openai_def continue_openai_try_def ensure_ready_def isReady_def
          openai_updatedMessages_def openai_tool_result_def tool_result_text_def
          clean_message_def empty_error_request_def first_choice_message_def getTools_def
          ready_client_def example_world_def)
  have bad: "continue_openai (example_world anthropic_final_turn openai_final_turn) ready_client
     unprintable_error_request =
     (error_reply 500 ''Cannot convert object to primitive value'', ready_client)"
    by (simp add: continue_openai_def continue_openai_try_def ensure_ready_def isReady_def
          openai_updatedMessages_def openai_tool_result_def tool_result_text_def
          template_text_def clean_message_def unprintable_error_request_def)
       (simp add: ready_client_def)
  show ?thesis
    using off on bad by (simp add: empty_error_request_def unprintable_error_request_def)
qed

section \<open>The chat store and chats of other users\<close>

lemma verify_owner_unowned:
  assumes "\<forall>c\<in>set (chats d). chat_id c = chatId \<longrightarrow> user_id c \<noteq> userId"
  shows "\<exists>msg. verify_owner d f chatId userId = Inl msg \<and> (f = NoFault \<longrightarrow> msg = ''Chat not found'')"
proof -
  have "filter (\<lambda>c. chat_id c = chatId \<and> user_id c = userId) (chats d) = []"
    using assms by (auto simp: filter_empty_conv)
  then show ?thesis by (cases f) (simp_all add: verify_owner_def)
qed

text \<open>
  The three functions that check the owner first refuse a chat of another user and leave
  the store as it was; \<^verbatim>\<open>updateChatTitle\<close> leaves the store as it was, too.
\<close>

lemma unowned_chat_untouched:
  assumes "\<forall>c\<in>set (chats d). chat_id c = chatId \<longrightarrow> user_id c \<noteq> userId"
  shows "snd (getChatWithMessages d f chatId userId) = d"
    and "\<not> success (fst (getChatWithMessages d f chatId userId))"
    and "snd (addMessageToChat d f now chatId r c userId) = d"
    and "\<not> success (fst (addMessageToChat d f now chatId r c userId))"
    and "snd (deleteChat d f chatId userId) = d"
    and "\<not> success (fst (deleteChat d f chatId userId))"
    and "snd (updateChatTitle d f chatId new_title userId) = d"
proof -
  from verify_owner_unowned [OF assms, of "f 0"] obtain msg where
    v: "verify_owner d (f 0) chatId userId = Inl msg" by blast
  show "snd (getChatWithMessages d f chatId userId) = d"
    and "\<not> success (fst (getChatWithMessages d f chatId userId))"
    using v by (simp_all add: getChatWithMessages_def)
  show "snd (addMessageToChat d f now chatId r c userId) = d"
    and "\<not> success (fst (addMessageToChat d f now chatId r c userId))"
    using v by (simp_all add: addMessageToChat_def)
  show "snd (deleteChat d f chatId userId) = d"
    and "\<not> success (fst (deleteChat d f chatId userId))"
    using v by (simp_all add: deleteChat_def)
  have "map (\<lambda>c. if chat_id c = chatId \<and> user_id c = userId then c\<lparr>title := new_title\<rparr> else c)
          (chats d) = chats d"
    using assms by (intro map_idI) auto
  then show "snd (updateChatTitle d f chatId new_title userId) = d"
    by (cases "f 0") (simp_all add: updateChatTitle_def Let_def)
qed

text \<open>
  C10 on \<^verbatim>\<open>updateChatTitle\<close>: bob renames a chat that alice owns.  No row changes,
  but the function returns \<^verbatim>\<open>{ success: true, chat: undefined }\<close>, where
  \<^verbatim>\<open>getChatWithMessages\<close>, \<^verbatim>\<open>addMessageToChat\<close> and \<^verbatim>\<open>deleteChat\<close> return
  \<^verbatim>\<open>{ success: false, error: 'Chat not found' }\<close>.
\<close>

theorem updateChatTitle_reports_success:
  "updateChatTitle example_db (\<lambda>k. NoFault) ''chat-1'' ''Mine now'' ''bob'' =
     (Success None, example_db) \<and>
   success (fst (updateChatTitle example_db (\<lambda>k. NoFault) ''chat-1'' ''Mine now'' ''bob'')) \<and>
   fst (deleteChat example_db (\<lambda>k. NoFault) ''chat-1'' ''bob'') = Failure ''Chat not found'' \<and>
   fst (addMessageToChat example_db (\<lambda>k. NoFault) 3 ''chat-1'' ''user'' ''hello'' ''bob'') =
     Failure ''Chat not found'' \<and>
   fst (getChatWithMessages example_db (\<lambda>k. NoFault) ''chat-1'' ''bob'') =
     Failure ''Chat not found''"
  by (simp add: updateChatTitle_def deleteChat_def addMessageToChat_def getChatWithMessages_def
        verify_owner_def example_db_def)

end
